theory Spec2Isabelle
  imports Main "HOL-Library.Word"
begin

section \<open>Go strings\<close>

text \<open>
  A Go \<open>string\<close> and a \<open>[]byte\<close> are sequences of bytes: \<^typ>\<open>string\<close> here, a list of
  8-bit characters. The functions of package \<open>strings\<close> that the proxy calls are written
  out on bytes. \<open>strings.ToUpper\<close> depends on the Unicode case tables and is a parameter
  of the model (see \<open>golib\<close> below).
\<close>

definition HasPrefix :: "string \<Rightarrow> string \<Rightarrow> bool" where
  "HasPrefix s p = (take (length p) s = p)"

definition HasSuffix :: "string \<Rightarrow> string \<Rightarrow> bool" where
  "HasSuffix s suf = HasPrefix (rev s) (rev suf)"

text \<open>\<open>strings.IndexByte\<close>: the index of the first occurrence, \<open>-1\<close> when there is none.\<close>

fun IndexByte :: "string \<Rightarrow> char \<Rightarrow> int" where
  "IndexByte [] c = -1"
| "IndexByte (x # xs) c =
     (if x = c then 0 else (let i = IndexByte xs c in if i < 0 then -1 else i + 1))"

text \<open>
  \<open>strings.Trim(s, cutset)\<close> for a cutset of ASCII bytes (the proxy's only cutset is
  \<open>"."\<close>): the leading and the trailing bytes of the cutset are removed.
\<close>

definition Trim :: "string \<Rightarrow> string \<Rightarrow> string" where
  "Trim s cutset =
     rev (dropWhile (\<lambda>c. c \<in> set cutset) (rev (dropWhile (\<lambda>c. c \<in> set cutset) s)))"

text \<open>
  \<open>strings.TrimSpace\<close> removes leading and trailing white space as \<open>unicode.IsSpace\<close>
  defines it. On the bytes of a string these are the UTF-8 encodings of the code points
  U+0009..U+000D, U+0020, U+0085, U+00A0, U+1680, U+2000..U+200A, U+2028, U+2029,
  U+202F, U+205F and U+3000.
\<close>

definition spaceSeqs :: "string list" where
  "spaceSeqs =
     [[CHR 0x09], [CHR 0x0A], [CHR 0x0B], [CHR 0x0C], [CHR 0x0D], [CHR 0x20],
      [CHR 0xC2, CHR 0x85], [CHR 0xC2, CHR 0xA0],
      [CHR 0xE1, CHR 0x9A, CHR 0x80],
      [CHR 0xE2, CHR 0x80, CHR 0x80], [CHR 0xE2, CHR 0x80, CHR 0x81],
      [CHR 0xE2, CHR 0x80, CHR 0x82], [CHR 0xE2, CHR 0x80, CHR 0x83],
      [CHR 0xE2, CHR 0x80, CHR 0x84], [CHR 0xE2, CHR 0x80, CHR 0x85],
      [CHR 0xE2, CHR 0x80, CHR 0x86], [CHR 0xE2, CHR 0x80, CHR 0x87],
      [CHR 0xE2, CHR 0x80, CHR 0x88], [CHR 0xE2, CHR 0x80, CHR 0x89],
      [CHR 0xE2, CHR 0x80, CHR 0x8A],
      [CHR 0xE2, CHR 0x80, CHR 0xA8], [CHR 0xE2, CHR 0x80, CHR 0xA9],
      [CHR 0xE2, CHR 0x80, CHR 0xAF],
      [CHR 0xE2, CHR 0x81, CHR 0x9F],
      [CHR 0xE3, CHR 0x80, CHR 0x80]]"

text \<open>The rest of \<open>s\<close> after one leading sequence of \<open>seqs\<close>, if it starts with one.\<close>

definition cutPrefixOf :: "string list \<Rightarrow> string \<Rightarrow> string option" where
  "cutPrefixOf seqs s =
     (case filter (\<lambda>e. e \<noteq> [] \<and> HasPrefix s e) seqs of
        [] \<Rightarrow> None
      | e # _ \<Rightarrow> Some (drop (length e) s))"

function trimPrefixes :: "string list \<Rightarrow> string \<Rightarrow> string" where
  "trimPrefixes seqs s =
     (case cutPrefixOf seqs s of None \<Rightarrow> s | Some s' \<Rightarrow> trimPrefixes seqs s')"
  by pat_completeness auto
termination
proof (relation "measure (\<lambda>(seqs, s). length s)")
  show "wf (measure (\<lambda>(seqs, s). length s))" by simp
next
  fix seqs :: "string list" and s x2 :: string
  assume c: "cutPrefixOf seqs s = Some x2"
  then obtain e es where f: "filter (\<lambda>e. e \<noteq> [] \<and> HasPrefix s e) seqs = e # es"
    and x2: "x2 = drop (length e) s"
    by (auto simp: cutPrefixOf_def split: list.splits)
  from f have "e \<in> set (filter (\<lambda>e. e \<noteq> [] \<and> HasPrefix s e) seqs)" by simp
  then have "e \<noteq> []" and "HasPrefix s e" by auto
  then have "s \<noteq> []" by (auto simp: HasPrefix_def)
  with \<open>e \<noteq> []\<close> x2 have "length x2 < length s" by simp
  then show "((seqs, x2), (seqs, s)) \<in> measure (\<lambda>(seqs, s). length s)" by simp
qed

definition TrimSpace :: "string \<Rightarrow> string" where
  "TrimSpace s = rev (trimPrefixes (map rev spaceSeqs) (rev (trimPrefixes spaceSeqs s)))"

text \<open>
  \<open>strings.SplitN(s, sep, n)\<close> for a one-byte separator and \<open>n > 0\<close> (the proxy calls it
  with \<open>"\t"\<close> and \<open>5\<close>): at most \<open>n\<close> pieces, the last one the unsplit rest.
\<close>

fun SplitN :: "string \<Rightarrow> char \<Rightarrow> nat \<Rightarrow> string list" where
  "SplitN s sep 0 = []"
| "SplitN s sep (Suc 0) = [s]"
| "SplitN s sep (Suc (Suc n)) =
     (if sep \<in> set s
      then takeWhile (\<lambda>c. c \<noteq> sep) s # SplitN (tl (dropWhile (\<lambda>c. c \<noteq> sep) s)) sep (Suc n)
      else [s])"

text \<open>ASCII lower case (\<open>strings.ToLower\<close> on a URL scheme, which \<open>net/url\<close> keeps ASCII).\<close>

definition asciiLower :: "char \<Rightarrow> char" where
  "asciiLower c =
     (if (65::nat) \<le> of_char c \<and> of_char c \<le> (90::nat)
      then char_of (of_char c + (32::nat)) else c)"

definition ToLower :: "string \<Rightarrow> string" where
  "ToLower s = map asciiLower s"

section \<open>Library types\<close>

text \<open>
  \<open>netip.Addr\<close> is an IP address or the zero value, which is not valid.
  \<^typ>\<open>'ip\<close> is the type of the valid addresses, so \<open>None\<close> is the zero \<open>Addr\<close>.
  \<open>netip.AddrPort\<close> pairs an \<open>Addr\<close> with a 16-bit port.
\<close>

record 'ip AddrPort =
  ip :: "'ip option"
  port :: "16 word"

definition AddrPortZero :: "'ip AddrPort" where
  "AddrPortZero = \<lparr>ip = None, port = 0\<rparr>"

definition AddrPortFrom :: "'ip \<Rightarrow> 16 word \<Rightarrow> 'ip AddrPort" where
  "AddrPortFrom a p = \<lparr>ip = Some a, port = p\<rparr>"

definition IsValid :: "'ip AddrPort \<Rightarrow> bool" where
  "IsValid ap = (ip ap \<noteq> None)"

text \<open>
  \<open>dns.Question\<close> and \<open>dns.Msg\<close> of the DNS library. A resource record (\<open>dns.RR\<close>) is
  an interface there; the proxy only tests it against \<open>nil\<close> and calls its \<open>String\<close>
  method, so \<^typ>\<open>'rr\<close> stays abstract and a \<open>nil\<close> record is \<open>None\<close>.
\<close>

record dns_Question =
  Name :: string
  Qtype :: "16 word"
  Qclass :: "16 word"

record 'rr dns_Msg =
  Id_msg :: "16 word"
  Response :: bool
  Opcode :: int
  Authoritative :: bool
  Truncated :: bool
  RecursionDesired :: bool
  RecursionAvailable :: bool
  Zero :: bool
  AuthenticatedData :: bool
  CheckingDisabled :: bool
  Rcode :: int
  Compress :: bool
  Question :: "dns_Question list"
  Answer :: "'rr option list"
  Ns :: "'rr option list"
  Extra :: "'rr option list"

text \<open>The numeric values of the library's type and class constants (RFC 1035 and later).\<close>

definition dns_TypeA :: "16 word" where "dns_TypeA = 1"
definition dns_TypeNS :: "16 word" where "dns_TypeNS = 2"
definition dns_TypeCNAME :: "16 word" where "dns_TypeCNAME = 5"
definition dns_TypeSOA :: "16 word" where "dns_TypeSOA = 6"
definition dns_TypePTR :: "16 word" where "dns_TypePTR = 12"
definition dns_TypeMX :: "16 word" where "dns_TypeMX = 15"
definition dns_TypeTXT :: "16 word" where "dns_TypeTXT = 16"
definition dns_TypeAAAA :: "16 word" where "dns_TypeAAAA = 28"
definition dns_TypeSRV :: "16 word" where "dns_TypeSRV = 33"
definition dns_TypeNAPTR :: "16 word" where "dns_TypeNAPTR = 35"
definition dns_TypeDNAME :: "16 word" where "dns_TypeDNAME = 39"
definition dns_TypeSPF :: "16 word" where "dns_TypeSPF = 99"
definition dns_TypeCAA :: "16 word" where "dns_TypeCAA = 257"
definition dns_ClassINET :: "16 word" where "dns_ClassINET = 1"

text \<open>
  The functions of other libraries that the proxy calls are parameters of the model:
  every theorem below holds for whatever these functions compute.
  \<^item> \<open>netip.ParseAddr\<close>, \<open>netip.ParseAddrPort\<close>: \<open>None\<close> is a parse error;
  \<^item> \<open>base64.RawURLEncoding.DecodeString\<close>: the decoded bytes, and whether the error is
    not \<open>nil\<close>;
  \<^item> \<open>(*dns.Msg).Pack\<close>, and \<open>(*dns.Msg).Unpack\<close> on a fresh message: \<open>None\<close> is an
    error;
  \<^item> \<open>dns.Id\<close>: the transaction id the generator hands out for this request;
  \<^item> \<open>dns.TypeToString\<close>: a Go map, \<open>None\<close> for a missing key;
  \<^item> \<open>RR.String\<close>, \<open>strings.ToUpper\<close>;
  \<^item> \<open>strconv.Atoi\<close>: the integer it returns (the proxy drops its error);
  \<^item> \<open>parseBasicAuth\<close> of \<open>net/http\<close> on the value of the \<open>Authorization\<close> header:
    the user name and the password, \<open>None\<close> when the header is not Basic credentials.
\<close>

record ('ip, 'rr) golib =
  netip_ParseAddr :: "string \<Rightarrow> 'ip option"
  netip_ParseAddrPort :: "string \<Rightarrow> ('ip \<times> 16 word) option"
  base64_RawURLDecodeString :: "string \<Rightarrow> string \<times> bool"
  dns_Pack :: "'rr dns_Msg \<Rightarrow> string option"
  dns_Unpack :: "string \<Rightarrow> 'rr dns_Msg option"
  dns_Id :: "16 word"
  dns_TypeToString :: "16 word \<Rightarrow> string option"
  RR_String :: "'rr \<Rightarrow> string"
  strings_ToUpper :: "string \<Rightarrow> string"
  strconv_Atoi :: "string \<Rightarrow> int"
  http_parseBasicAuth :: "string \<Rightarrow> (string \<times> string) option"

datatype error =
  ErrInvalidType string
  | ErrPack
  | ErrUnpack
  | ErrParseAddr
  | ErrPackingMessage

section \<open>The JSON API (HTTPDNS)\<close>

definition HttpDnsUrlPathPrefix :: string where
  "HttpDnsUrlPathPrefix = ''/resolve''"

definition HttpDnsUrlPathPrefixBak :: string where
  "HttpDnsUrlPathPrefixBak = ''/dns-query''"

definition HTTPDNSSupportType :: "string \<Rightarrow> 16 word option" where
  "HTTPDNSSupportType = map_of
     [('''', dns_TypeA),
      (''A'', dns_TypeA),
      (''AAAA'', dns_TypeAAAA),
      (''NS'', dns_TypeNS),
      (''PTR'', dns_TypePTR),
      (''TXT'', dns_TypeTXT),
      (''SOA'', dns_TypeSOA),
      (''SPF'', dns_TypeSPF),
      (''SRV'', dns_TypeSRV),
      (''MX'', dns_TypeMX),
      (''NAPTR'', dns_TypeNAPTR),
      (''CNAME'', dns_TypeCNAME),
      (''DNAME'', dns_TypeDNAME),
      (''CAA'', dns_TypeCAA)]"

definition HttpDnsAnswerTypeDoh :: "8 word" where
  "HttpDnsAnswerTypeDoh = 0"

definition HttpDnsAnswerTypeJsonAnswer :: "8 word" where
  "HttpDnsAnswerTypeJsonAnswer = 1"

text \<open>
  The structs the JSON answer is built from. A Go slice is \<open>nil\<close> (\<open>None\<close>) or a list:
  \<open>encoding/json\<close> writes the first as \<open>null\<close> and the second as an array.
\<close>

record Question =
  Name_q :: string
  Type_q :: "16 word"

record RR =
  Name_rr :: string
  TTL :: int
  Type_rr :: int
  Data :: string

record DnsResponse =
  TC :: bool
  RD :: bool
  RA :: bool
  AD :: bool
  CD :: bool
  Status :: int
  Question_json :: "Question list option"
  Answer_json :: "RR list option"

text \<open>The zero value \<open>DnsResponse{}\<close>.\<close>

definition DnsResponseZero :: DnsResponse where
  "DnsResponseZero =
     \<lparr>TC = False, RD = False, RA = False, AD = False, CD = False, Status = 0,
      Question_json = None, Answer_json = None\<rparr>"

text \<open>
  A JSON document, and \<open>json.Marshal\<close> on the three structs, following their field
  tags. The bytes \<open>encoding/json\<close> renders a document to are not modelled.
\<close>

datatype json =
  JNull
  | JBool bool
  | JNumber int
  | JString string
  | JArray "json list"
  | JObject "(string \<times> json) list"

definition json_Question :: "Question \<Rightarrow> json" where
  "json_Question q =
     JObject [(''name'', JString (Name_q q)), (''type'', JNumber (uint (Type_q q)))]"

definition json_RR :: "RR \<Rightarrow> json" where
  "json_RR r =
     JObject [(''name'', JString (Name_rr r)), (''ttl'', JNumber (TTL r)),
              (''type'', JNumber (Type_rr r)), (''data'', JString (Data r))]"

definition json_slice :: "('a \<Rightarrow> json) \<Rightarrow> 'a list option \<Rightarrow> json" where
  "json_slice f xs = (case xs of None \<Rightarrow> JNull | Some ys \<Rightarrow> JArray (map f ys))"

definition json_Marshal :: "DnsResponse \<Rightarrow> json" where
  "json_Marshal r =
     JObject [(''tc'', JBool (TC r)), (''rd'', JBool (RD r)), (''ra'', JBool (RA r)),
              (''ad'', JBool (AD r)), (''cd'', JBool (CD r)), (''status'', JNumber (Status r)),
              (''question'', json_slice json_Question (Question_json r)),
              (''answer'', json_slice json_RR (Answer_json r))]"

text \<open>What an HTTP body holds: bytes as they are, or a marshalled JSON document.\<close>

datatype body = Raw string | JsonDoc json

text \<open>\<open>url.Values\<close>: the values of each key, in order; \<open>Get\<close> is the first or \<open>""\<close>.\<close>

type_synonym url_Values = "string \<Rightarrow> string list"

definition Get :: "(string \<Rightarrow> string list) \<Rightarrow> string \<Rightarrow> string" where
  "Get vs k = (case vs k of [] \<Rightarrow> [] | v # _ \<Rightarrow> v)"

definition convertFQDN :: "string \<Rightarrow> string" where
  "convertFQDN domain = TrimSpace (Trim domain ''.'') @ ''.''"

text \<open>
  \<open>parseHTTPArgs\<close> returns the packed query, the \<open>ip\<close> parameter and the error.
  \<open>httpArgsMsg\<close> is the message literal it packs.
\<close>

definition httpArgsMsg :: "('ip, 'rr) golib \<Rightarrow> string \<Rightarrow> 16 word \<Rightarrow> 'rr dns_Msg" where
  "httpArgsMsg lib domainName qType =
     \<lparr>Id_msg = dns_Id lib, Response = False, Opcode = 0, Authoritative = False,
      Truncated = False, RecursionDesired = True, RecursionAvailable = False, Zero = False,
      AuthenticatedData = False, CheckingDisabled = False, Rcode = 0, Compress = False,
      Question = [\<lparr>Name = domainName, Qtype = qType, Qclass = dns_ClassINET\<rparr>],
      Answer = [], Ns = [], Extra = []\<rparr>"

definition parseHTTPArgs ::
  "('ip, 'rr) golib \<Rightarrow> url_Values \<Rightarrow> string \<times> string \<times> error option" where
  "parseHTTPArgs lib args =
     (let domainName = convertFQDN (Get args ''name'');
          qTypeString = strings_ToUpper lib (Get args ''type'');
          remoteHostStr = Get args ''ip''
      in case HTTPDNSSupportType qTypeString of
           None \<Rightarrow> ([], [], Some (ErrInvalidType qTypeString))
         | Some qType \<Rightarrow>
             (let domainName' =
                    (if \<not> HasSuffix domainName ''.'' then domainName @ ''.'' else domainName)
              in case dns_Pack lib (httpArgsMsg lib domainName' qType) of
                   None \<Rightarrow> ([], remoteHostStr, Some ErrPack)
                 | Some buf \<Rightarrow> (buf, remoteHostStr, None)))"

text \<open>
  \<open>rrsToArray\<close>: the five tab-separated fields of every record's text form, the fourth
  (the type) in upper case; \<open>nil\<close> records and texts with fewer fields are skipped.
\<close>

fun rrsToArray :: "('ip, 'rr) golib \<Rightarrow> 'rr option list \<Rightarrow> string list list" where
  "rrsToArray lib [] = []"
| "rrsToArray lib (None # rrs) = rrsToArray lib rrs"
| "rrsToArray lib (Some rr # rrs) =
     (let arr = SplitN (RR_String lib rr) (CHR 0x09) 5
      in if length arr = 5
         then arr[3 := strings_ToUpper lib (arr ! 3)] # rrsToArray lib rrs
         else rrsToArray lib rrs)"

text \<open>
  The loop of \<open>formatHTTPDNSMsg\<close> over the rows: a row whose type field equals the
  queried type's name is appended to the answer. The rows come from \<open>rrsToArray\<close> and
  have five fields each.
\<close>

fun appendAnswers ::
  "('ip, 'rr) golib \<Rightarrow> string \<Rightarrow> string list list \<Rightarrow> RR list \<Rightarrow> RR list" where
  "appendAnswers lib qType [] acc = acc"
| "appendAnswers lib qType (rr # rrs) acc =
     (if qType = rr ! 3
      then appendAnswers lib qType rrs
             (acc @ [\<lparr>Name_rr = rr ! 0,
                      TTL = strconv_Atoi lib (rr ! 1),
                      Type_rr = (case HTTPDNSSupportType (strings_ToUpper lib qType) of
                                   None \<Rightarrow> 0 | Some t \<Rightarrow> uint t),
                      Data = rr ! 4\<rparr>])
      else appendAnswers lib qType rrs acc)"

definition formatHTTPDNSMsg ::
  "('ip, 'rr) golib \<Rightarrow> 'rr dns_Msg \<Rightarrow> 8 word \<Rightarrow> error + body" where
  "formatHTTPDNSMsg lib msg answerType =
     (if answerType = HttpDnsAnswerTypeDoh
      then (case dns_Pack lib msg of None \<Rightarrow> Inl ErrPack | Some b \<Rightarrow> Inr (Raw b))
      else case Question msg of
             [] \<Rightarrow> Inr (JsonDoc (json_Marshal DnsResponseZero))
           | q # _ \<Rightarrow>
               (let qname = Name q;
                    qType = (case dns_TypeToString lib (Qtype q) of None \<Rightarrow> [] | Some s \<Rightarrow> s);
                    qt = \<lparr>Name_q = qname, Type_q = Qtype q\<rparr>;
                    resp = \<lparr>TC = Truncated msg, RD = RecursionDesired msg,
                            RA = RecursionAvailable msg, AD = AuthenticatedData msg,
                            CD = CheckingDisabled msg, Status = Rcode msg,
                            Question_json = Some [qt], Answer_json = Some []\<rparr>;
                    rrs = rrsToArray lib (Answer msg)
                in Inr (JsonDoc (json_Marshal
                     (resp\<lparr>Answer_json := Some (appendAnswers lib qType rrs [])\<rparr>)))))"

section \<open>HTTP requests and responses\<close>

text \<open>
  What the handlers read of an \<open>http.Request\<close>: the method, the path, the scheme and
  the parsed query of its URL, the header (by canonical key, \<open>Get\<close> as for
  \<open>url.Values\<close>), the peer's address as text, and what \<open>io.ReadAll\<close> returns for the
  body (\<open>None\<close> for a read error).
\<close>

record http_Request =
  Method :: string
  URL_Path :: string
  URL_Scheme :: string
  URL_Query :: url_Values
  Header :: "string \<Rightarrow> string list"
  RemoteAddr :: string
  Body :: "string option"

text \<open>
  An \<open>http.ResponseWriter\<close> as the state it accumulates: the header map, the status
  code once it is written, and the bodies written so far. Write errors of the
  connection are not modelled.
\<close>

record http_ResponseWriter =
  Header_w :: "string \<Rightarrow> string option"
  StatusCode :: "nat option"
  Written :: "body list"

definition newResponseWriter :: http_ResponseWriter where
  "newResponseWriter = \<lparr>Header_w = (\<lambda>k. None), StatusCode = None, Written = []\<rparr>"

definition Header_Set :: "http_ResponseWriter \<Rightarrow> string \<Rightarrow> string \<Rightarrow> http_ResponseWriter" where
  "Header_Set w k v = w\<lparr>Header_w := (Header_w w)(k := Some v)\<rparr>"

definition Header_Del :: "http_ResponseWriter \<Rightarrow> string \<Rightarrow> http_ResponseWriter" where
  "Header_Del w k = w\<lparr>Header_w := (Header_w w)(k := None)\<rparr>"

definition WriteHeader :: "http_ResponseWriter \<Rightarrow> nat \<Rightarrow> http_ResponseWriter" where
  "WriteHeader w code = (if StatusCode w = None then w\<lparr>StatusCode := Some code\<rparr> else w)"

definition Write :: "http_ResponseWriter \<Rightarrow> body \<Rightarrow> http_ResponseWriter" where
  "Write w b = (WriteHeader w 200)\<lparr>Written := Written w @ [b]\<rparr>"

definition http_StatusOK :: nat where "http_StatusOK = 200"
definition http_StatusBadRequest :: nat where "http_StatusBadRequest = 400"
definition http_StatusUnauthorized :: nat where "http_StatusUnauthorized = 401"
definition http_StatusMethodNotAllowed :: nat where "http_StatusMethodNotAllowed = 405"
definition http_StatusUnsupportedMediaType :: nat where "http_StatusUnsupportedMediaType = 415"
definition http_StatusInternalServerError :: nat where "http_StatusInternalServerError = 500"

definition http_StatusText :: "nat \<Rightarrow> string" where
  "http_StatusText code =
     (if code = 200 then ''OK''
      else if code = 400 then ''Bad Request''
      else if code = 401 then ''Unauthorized''
      else if code = 405 then ''Method Not Allowed''
      else if code = 415 then ''Unsupported Media Type''
      else if code = 500 then ''Internal Server Error''
      else [])"

text \<open>The header names of \<open>httphdr\<close>, in the canonical form \<open>Header.Get\<close> looks up.\<close>

definition httphdr_CFConnectingIP :: string where "httphdr_CFConnectingIP = ''Cf-Connecting-Ip''"
definition httphdr_TrueClientIP :: string where "httphdr_TrueClientIP = ''True-Client-Ip''"
definition httphdr_XRealIP :: string where "httphdr_XRealIP = ''X-Real-Ip''"
definition httphdr_XForwardedFor :: string where "httphdr_XForwardedFor = ''X-Forwarded-For''"
definition httphdr_ContentType :: string where "httphdr_ContentType = ''Content-Type''"
definition httphdr_WWWAuthenticate :: string where "httphdr_WWWAuthenticate = ''Www-Authenticate''"
definition httphdr_Server :: string where "httphdr_Server = ''Server''"
definition httphdr_Authorization :: string where "httphdr_Authorization = ''Authorization''"

text \<open>
  \<open>http.Error\<close>: it replaces the content type, writes the status code and the message
  followed by a newline. It leaves every header it does not name as it is.
\<close>

definition http_Error :: "http_ResponseWriter \<Rightarrow> string \<Rightarrow> nat \<Rightarrow> http_ResponseWriter" where
  "http_Error w msg code =
     (let w1 = Header_Del w ''Content-Length'';
          w2 = Header_Set w1 ''Content-Type'' ''text/plain; charset=utf-8'';
          w3 = Header_Set w2 ''X-Content-Type-Options'' ''nosniff''
      in Write (WriteHeader w3 code) (Raw (msg @ [CHR 0x0A])))"

text \<open>
  \<open>(*http.Request).BasicAuth\<close>: user name, password and whether the request carries
  Basic credentials; both strings are empty when it does not.
\<close>

definition BasicAuth :: "('ip, 'rr) golib \<Rightarrow> http_Request \<Rightarrow> string \<times> string \<times> bool" where
  "BasicAuth lib r =
     (let auth = Get (Header r) httphdr_Authorization
      in if auth = [] then ([], [], False)
         else case http_parseBasicAuth lib auth of
                None \<Rightarrow> ([], [], False)
              | Some (u, p) \<Rightarrow> (u, p, True))"

text \<open>
  \<open>url.Userinfo\<close> as its two constructors \<open>url.User\<close> and \<open>url.UserPassword\<close>;
  \<open>Password\<close> returns the password and whether one is set.
\<close>

datatype url_Userinfo = User string | UserPassword string string

fun Username :: "url_Userinfo \<Rightarrow> string" where
  "Username (User u) = u"
| "Username (UserPassword u p) = u"

fun Password :: "url_Userinfo \<Rightarrow> string \<times> bool" where
  "Password (User u) = ([], False)"
| "Password (UserPassword u p) = (p, True)"

section \<open>The proxy\<close>

text \<open>
  Modelled from the spec: the declaration of \<open>Proto\<close> and of its constants is not among
  the sources. The handlers compare a context's tag with \<open>ProtoHTTP\<close> and \<open>ProtoHTTPS\<close>,
  which are different tags.
\<close>

datatype Proto = ProtoUDP | ProtoTCP | ProtoTLS | ProtoHTTPS | ProtoHTTP | ProtoQUIC | ProtoDNSCrypt

text \<open>
  Modelled from the spec: the declaration of \<open>Proxy\<close> (and of its \<open>Config\<close>) is not among
  the sources. These are the fields the HTTP handlers read: the optional credential,
  the server name, and the spec's TrustedProxySet, an immutable set of IP addresses;
  \<open>Contains\<close> is membership of a valid address in it.
\<close>

record 'ip Proxy =
  Userinfo :: "url_Userinfo option"
  HTTPSServerName :: string
  TrustedProxies :: "'ip set"

definition Contains :: "'ip set \<Rightarrow> 'ip option \<Rightarrow> bool" where
  "Contains S a = (case a of None \<Rightarrow> False | Some x \<Rightarrow> x \<in> S)"

text \<open>
  Modelled from the spec: the declarations of \<open>DNSContext\<close> and \<open>newDNSContext\<close> are not
  among the sources. These are the fields the HTTP handlers set or read; the spec's
  QueryContext holds the protocol tag, the query, the effective client address, the
  proxy address and the answer-encoding kind, and \<open>newDNSContext\<close> stores its three
  arguments (tag, query and client address) in a fresh context.
\<close>

record ('ip, 'rr) DNSContext =
  Proto_d :: Proto
  Req :: "'rr dns_Msg"
  Res :: "'rr dns_Msg option"
  Addr :: "'ip AddrPort"
  PreAddr :: "'ip AddrPort"
  AnswerType :: "8 word"
  XForwardedFor :: string

definition newDNSContext :: "Proto \<Rightarrow> 'rr dns_Msg \<Rightarrow> 'ip AddrPort \<Rightarrow> ('ip, 'rr) DNSContext" where
  "newDNSContext proto req addr =
     \<lparr>Proto_d = proto, Req = req, Res = None, Addr = addr, PreAddr = AddrPortZero,
      AnswerType = 0, XForwardedFor = []\<rparr>"

subsection \<open>Decoding a request\<close>

text \<open>The end of \<open>newDoHOrHttpReq\<close>, after its \<open>switch\<close>: the payload is unpacked.\<close>

definition unpackReq ::
  "('ip, 'rr) golib \<Rightarrow> string \<Rightarrow> 8 word \<Rightarrow> string \<Rightarrow> 'rr dns_Msg option \<times> nat \<times> 8 word \<times> string" where
  "unpackReq lib buf answerType remoteHostStr =
     (case dns_Unpack lib buf of
        None \<Rightarrow> (None, http_StatusBadRequest, answerType, remoteHostStr)
      | Some req \<Rightarrow> (Some req, http_StatusOK, answerType, remoteHostStr))"

text \<open>\<open>newDoHOrHttpReq\<close> returns the query, the status code, the answer type and the
  \<open>ip\<close> parameter.\<close>

definition newDoHOrHttpReq ::
  "('ip, 'rr) golib \<Rightarrow> http_Request \<Rightarrow> 'rr dns_Msg option \<times> nat \<times> 8 word \<times> string" where
  "newDoHOrHttpReq lib r =
     (let path = URL_Path r in
      if Method r = ''GET'' then
        (if path = HttpDnsUrlPathPrefix \<or> path = HttpDnsUrlPathPrefixBak
         then (case parseHTTPArgs lib (URL_Query r) of
                 (buf, remoteHostStr, err) \<Rightarrow>
                   if length buf = 0 \<or> err \<noteq> None
                   then (None, http_StatusBadRequest, HttpDnsAnswerTypeJsonAnswer, remoteHostStr)
                   else unpackReq lib buf HttpDnsAnswerTypeJsonAnswer remoteHostStr)
         else (case base64_RawURLDecodeString lib (Get (URL_Query r) ''dns'') of
                 (buf, err) \<Rightarrow>
                   if length buf = 0 \<or> err
                   then (None, http_StatusBadRequest, HttpDnsAnswerTypeDoh, [])
                   else unpackReq lib buf HttpDnsAnswerTypeDoh []))
      else if Method r = ''POST'' then
        (let contentType = Get (Header r) httphdr_ContentType in
         if contentType \<noteq> ''application/dns-message''
         then (None, http_StatusUnsupportedMediaType, HttpDnsAnswerTypeDoh, [])
         else case Body r of
                None \<Rightarrow> (None, http_StatusBadRequest, HttpDnsAnswerTypeDoh, [])
              | Some buf \<Rightarrow> unpackReq lib buf HttpDnsAnswerTypeDoh [])
      else (None, http_StatusMethodNotAllowed, HttpDnsAnswerTypeDoh, []))"

subsection \<open>The client's address\<close>

text \<open>The loop of \<open>realIPFromHdrs\<close> over the first three headers.\<close>

fun firstParsed :: "('ip, 'rr) golib \<Rightarrow> http_Request \<Rightarrow> string list \<Rightarrow> 'ip option" where
  "firstParsed lib r [] = None"
| "firstParsed lib r (h # hs) =
     (case netip_ParseAddr lib (TrimSpace (Get (Header r) h)) of
        Some realIP \<Rightarrow> Some realIP
      | None \<Rightarrow> firstParsed lib r hs)"

definition realIPFromHdrs :: "('ip, 'rr) golib \<Rightarrow> http_Request \<Rightarrow> 'ip option" where
  "realIPFromHdrs lib r =
     (case firstParsed lib r [httphdr_CFConnectingIP, httphdr_TrueClientIP, httphdr_XRealIP] of
        Some realIP \<Rightarrow> Some realIP
      | None \<Rightarrow>
          (let xff = Get (Header r) httphdr_XForwardedFor;
               firstComma = IndexByte xff (CHR '','');
               xff' = (if firstComma > 0 then take (nat firstComma) xff else xff)
           in netip_ParseAddr lib (TrimSpace xff')))"

text \<open>\<open>remoteAddrWithRemoteHost\<close> returns the client's address, the proxy's address
  and the error.\<close>

definition remoteAddrWithRemoteHost ::
  "('ip, 'rr) golib \<Rightarrow> http_Request \<Rightarrow> string \<Rightarrow> 'ip AddrPort \<times> 'ip AddrPort \<times> error option" where
  "remoteAddrWithRemoteHost lib r remoteHostStr =
     (case netip_ParseAddrPort lib (RemoteAddr r) of
        None \<Rightarrow> (AddrPortZero, AddrPortZero, Some ErrParseAddr)
      | Some (a, p) \<Rightarrow>
          (let host = AddrPortFrom a p;
               host' = (if remoteHostStr \<noteq> []
                        then (case netip_ParseAddrPort lib remoteHostStr of
                                Some (a', p') \<Rightarrow> AddrPortFrom a' p'
                              | None \<Rightarrow> host)
                        else host)
           in case realIPFromHdrs lib r of
                None \<Rightarrow> (host', AddrPortZero, None)
              | Some realIP \<Rightarrow> (AddrPortFrom realIP 0, host', None)))"

subsection \<open>Basic authentication\<close>

definition matchesUserinfo :: "url_Userinfo \<Rightarrow> string \<Rightarrow> string \<Rightarrow> bool" where
  "matchesUserinfo userinfo user pass =
     (let requiredPassword = fst (Password userinfo)
      in user = Username userinfo \<and> pass = requiredPassword)"

definition wwwAuthenticateValue :: string where
  "wwwAuthenticateValue =
     ''Basic realm='' @ [CHR 0x22] @ ''DNS'' @ [CHR 0x22] @ '', charset='' @
     [CHR 0x22] @ ''UTF-8'' @ [CHR 0x22]"

text \<open>\<open>checkBasicAuth\<close> returns \<open>shouldHandle\<close> and the response writer after it.\<close>

definition checkBasicAuth ::
  "('ip, 'rr) golib \<Rightarrow> 'ip Proxy \<Rightarrow> http_ResponseWriter \<Rightarrow> http_Request \<Rightarrow> 'ip AddrPort \<Rightarrow>
   bool \<times> http_ResponseWriter" where
  "checkBasicAuth lib p w r raddr =
     (case Userinfo p of
        None \<Rightarrow> (True, w)
      | Some ui \<Rightarrow>
          (case BasicAuth lib r of
             (user, pass, _) \<Rightarrow>
               if matchesUserinfo ui user pass then (True, w)
               else (False,
                     http_Error (Header_Set w httphdr_WWWAuthenticate wwwAuthenticateValue)
                       ''Authorization required'' http_StatusUnauthorized)))"

subsection \<open>Writing the answer\<close>

text \<open>\<open>respondHTTPS\<close> returns the response writer after it and the error.\<close>

definition respondHTTPS ::
  "('ip, 'rr) golib \<Rightarrow> 'ip Proxy \<Rightarrow> ('ip, 'rr) DNSContext \<Rightarrow> http_ResponseWriter \<Rightarrow>
   http_ResponseWriter \<times> error option" where
  "respondHTTPS lib p d w =
     (case Res d of
        None \<Rightarrow>
          (http_Error w (http_StatusText http_StatusInternalServerError)
             http_StatusInternalServerError, None)
      | Some resp \<Rightarrow>
          (case (if Proto_d d = ProtoHTTP
                 then formatHTTPDNSMsg lib resp (AnswerType d)
                 else (case dns_Pack lib resp of None \<Rightarrow> Inl ErrPack | Some b \<Rightarrow> Inr (Raw b))) of
             Inl err \<Rightarrow>
               (http_Error w (http_StatusText http_StatusInternalServerError)
                  http_StatusInternalServerError, Some ErrPackingMessage)
           | Inr bytes \<Rightarrow>
               (let w1 = (if HTTPSServerName p \<noteq> []
                          then Header_Set w httphdr_Server (HTTPSServerName p) else w);
                    w2 = (if AnswerType d = HttpDnsAnswerTypeDoh
                          then Header_Set w1 httphdr_ContentType ''application/dns-message''
                          else Header_Set w1 httphdr_ContentType ''application/json'')
                in (Write w2 bytes, None))))"

subsection \<open>The handler\<close>

text \<open>
  \<open>ServeHTTP\<close> up to its call of \<open>handleDNSRequest\<close> (the resolution engine, which is
  not among the sources): the response writer after it, and the context it hands to
  the engine, \<open>None\<close> when it has answered with an error instead.
\<close>

definition ServeHTTP ::
  "('ip, 'rr) golib \<Rightarrow> 'ip Proxy \<Rightarrow> http_ResponseWriter \<Rightarrow> http_Request \<Rightarrow>
   http_ResponseWriter \<times> ('ip, 'rr) DNSContext option" where
  "ServeHTTP lib p w r =
     (case newDoHOrHttpReq lib r of
        (None, statusCode, answerType, remoteHostStr) \<Rightarrow>
          (http_Error w (http_StatusText statusCode) statusCode, None)
      | (Some req, statusCode, answerType, remoteHostStr) \<Rightarrow>
          (case remoteAddrWithRemoteHost lib r remoteHostStr of
             (raddr, prx, err) \<Rightarrow>
               (case checkBasicAuth lib p w r raddr of
                  (False, w') \<Rightarrow> (w', None)
                | (True, w') \<Rightarrow>
                    (let raddr' = (if IsValid prx \<and> \<not> Contains (TrustedProxies p) (ip prx)
                                   then prx else raddr);
                         proto = (if ToLower (URL_Scheme r) = ''https''
                                  then ProtoHTTPS else ProtoHTTP);
                         d = newDNSContext proto req raddr';
                         d1 = d\<lparr>PreAddr := raddr', AnswerType := answerType\<rparr>;
                         d2 = (if IsValid prx then d1\<lparr>PreAddr := prx\<rparr> else d1);
                         d3 = d2\<lparr>XForwardedFor := Get (Header r) httphdr_XForwardedFor\<rparr>
                     in (w', Some d3)))))"

section \<open>A reference instance of the library\<close>

text \<open>
  To run the model on concrete requests, the library parameters are instantiated with
  \<open>reflib\<close>. Its functions follow the Go libraries on the inputs they cover and fail
  on the others: IPv4 addresses in dotted decimal, base64 text, DNS messages made of a
  header and questions with plain labels, ASCII letters. An address is the list of
  its four octets, a resource record is its text form. The arithmetic is on
  \<^typ>\<open>int\<close>.
\<close>

fun splitOn :: "char \<Rightarrow> string \<Rightarrow> string list" where
  "splitOn sep [] = [[]]"
| "splitOn sep (x # xs) =
     (if x = sep then [] # splitOn sep xs
      else case splitOn sep xs of [] \<Rightarrow> [[x]] | f # fs \<Rightarrow> (x # f) # fs)"

definition isDigit :: "char \<Rightarrow> bool" where
  "isDigit c = ((48::int) \<le> of_char c \<and> of_char c \<le> (57::int))"

definition decimal :: "string \<Rightarrow> int" where
  "decimal s = foldl (\<lambda>v c. v * 10 + (of_char c - 48)) 0 s"

text \<open>A field of an IPv4 address: digits, no leading zero, at most 255.\<close>

definition parseOctet :: "string \<Rightarrow> 8 word option" where
  "parseOctet f =
     (if f = [] \<or> \<not> list_all isDigit f \<or> (length f > 1 \<and> hd f = CHR ''0'') \<or> 255 < decimal f
      then None else Some (word_of_int (decimal f)))"

definition ref_ParseAddr :: "string \<Rightarrow> 8 word list option" where
  "ref_ParseAddr s =
     (case splitOn (CHR ''.'') s of
        [a, b, c, d] \<Rightarrow> those (map parseOctet [a, b, c, d])
      | _ \<Rightarrow> None)"

text \<open>\<open>ip:port\<close>, split at the last colon; the port is a decimal number below 65536.\<close>

definition ref_ParseAddrPort :: "string \<Rightarrow> (8 word list \<times> 16 word) option" where
  "ref_ParseAddrPort s =
     (if CHR '':'' \<notin> set s then None
      else (let prt = rev (takeWhile (\<lambda>c. c \<noteq> CHR '':'') (rev s));
                adr = rev (tl (dropWhile (\<lambda>c. c \<noteq> CHR '':'') (rev s)))
            in if adr = [] \<or> prt = [] \<or> \<not> list_all isDigit prt \<or> 65535 < decimal prt then None
               else case ref_ParseAddr adr of
                      None \<Rightarrow> None
                    | Some a \<Rightarrow> Some (a, word_of_int (decimal prt))))"

text \<open>
  Base64: the value of a character in the URL-safe or in the standard alphabet, and
  the decoder of \<open>encoding/base64\<close> (not strict, line breaks skipped) without and with
  padding. It returns the bytes decoded before an error, and whether there is one.
\<close>

definition b64val :: "bool \<Rightarrow> char \<Rightarrow> int option" where
  "b64val url c =
     (let n = (of_char c :: int) in
      if 65 \<le> n \<and> n \<le> 90 then Some (n - 65)
      else if 97 \<le> n \<and> n \<le> 122 then Some (n - 71)
      else if 48 \<le> n \<and> n \<le> 57 then Some (n + 4)
      else if c = (if url then CHR ''-'' else CHR ''+'') then Some 62
      else if c = (if url then CHR ''_'' else CHR ''/'') then Some 63
      else None)"

definition quantum :: "int \<Rightarrow> int \<Rightarrow> int \<Rightarrow> int \<Rightarrow> string" where
  "quantum a b c d =
     [char_of (a * 4 + b div 16), char_of ((b mod 16) * 16 + c div 4), char_of ((c mod 4) * 64 + d)]"

fun b64quanta :: "bool \<Rightarrow> bool \<Rightarrow> string \<Rightarrow> string \<times> bool" where
  "b64quanta url pad (a # b # c # d # rest) =
     (case (b64val url a, b64val url b, b64val url c, b64val url d) of
        (Some x, Some y, Some z, Some u) \<Rightarrow>
          (case b64quanta url pad rest of (bs, e) \<Rightarrow> (quantum x y z u @ bs, e))
      | (Some x, Some y, Some z, None) \<Rightarrow>
          (if pad \<and> d = CHR ''='' \<and> rest = [] then (take 2 (quantum x y z 0), False)
           else ([], True))
      | (Some x, Some y, None, None) \<Rightarrow>
          (if pad \<and> c = CHR ''='' \<and> d = CHR ''='' \<and> rest = [] then (take 1 (quantum x y 0 0), False)
           else ([], True))
      | _ \<Rightarrow> ([], True))"
| "b64quanta url pad [a, b, c] =
     (case (b64val url a, b64val url b, b64val url c) of
        (Some x, Some y, Some z) \<Rightarrow>
          (if pad then ([], True) else (take 2 (quantum x y z 0), False))
      | _ \<Rightarrow> ([], True))"
| "b64quanta url pad [a, b] =
     (case (b64val url a, b64val url b) of
        (Some x, Some y) \<Rightarrow> (if pad then ([], True) else (take 1 (quantum x y 0 0), False))
      | _ \<Rightarrow> ([], True))"
| "b64quanta url pad [a] = ([], True)"
| "b64quanta url pad [] = ([], False)"

definition ref_RawURLDecodeString :: "string \<Rightarrow> string \<times> bool" where
  "ref_RawURLDecodeString s =
     b64quanta True False (filter (\<lambda>c. c \<noteq> CHR 0x0A \<and> c \<noteq> CHR 0x0D) s)"

definition ref_StdDecodeString :: "string \<Rightarrow> string \<times> bool" where
  "ref_StdDecodeString s =
     b64quanta False True (filter (\<lambda>c. c \<noteq> CHR 0x0A \<and> c \<noteq> CHR 0x0D) s)"

text \<open>\<open>parseBasicAuth\<close>: \<open>Basic\<close> in any case, a space, and the base64 of \<open>user:password\<close>.\<close>

definition ref_parseBasicAuth :: "string \<Rightarrow> (string \<times> string) option" where
  "ref_parseBasicAuth auth =
     (if length auth < 6 \<or> ToLower (take 6 auth) \<noteq> ''basic '' then None
      else case ref_StdDecodeString (drop 6 auth) of
             (cs, err) \<Rightarrow>
               if err \<or> CHR '':'' \<notin> set cs then None
               else Some (takeWhile (\<lambda>c. c \<noteq> CHR '':'') cs,
                          tl (dropWhile (\<lambda>c. c \<noteq> CHR '':'') cs)))"

definition ref_ToUpper :: "string \<Rightarrow> string" where
  "ref_ToUpper s =
     map (\<lambda>c. if (97::int) \<le> of_char c \<and> of_char c \<le> (122::int)
               then char_of (of_char c - (32::int)) else c) s"

definition ref_Atoi :: "string \<Rightarrow> int" where
  "ref_Atoi s =
     (let ds = (if s \<noteq> [] \<and> (hd s = CHR ''-'' \<or> hd s = CHR ''+'') then tl s else s)
      in if ds = [] \<or> \<not> list_all isDigit ds then 0
         else if hd s = CHR ''-'' then - decimal ds else decimal ds)"

definition ref_TypeToString :: "16 word \<Rightarrow> string option" where
  "ref_TypeToString = map_of
     [(dns_TypeA, ''A''), (dns_TypeNS, ''NS''), (dns_TypeCNAME, ''CNAME''),
      (dns_TypeSOA, ''SOA''), (dns_TypePTR, ''PTR''), (dns_TypeMX, ''MX''),
      (dns_TypeTXT, ''TXT''), (dns_TypeAAAA, ''AAAA''), (dns_TypeSRV, ''SRV''),
      (dns_TypeNAPTR, ''NAPTR''), (dns_TypeDNAME, ''DNAME''), (dns_TypeSPF, ''SPF''),
      (dns_TypeCAA, ''CAA'')]"

text \<open>
  The wire format of RFC 1035 for a header and its questions. A label is plain when
  the library prints it as it is (no dot, no escape).
\<close>

definition be16 :: "int \<Rightarrow> string" where
  "be16 n = [char_of (n div 256), char_of (n mod 256)]"

definition rd16 :: "char \<Rightarrow> char \<Rightarrow> int" where
  "rd16 a b = of_char a * 256 + of_char b"

definition plainLabel :: "string \<Rightarrow> bool" where
  "plainLabel l =
     (l \<noteq> [] \<and> int (length l) \<le> 63 \<and>
      list_all (\<lambda>c. (33::int) \<le> of_char c \<and> of_char c \<le> (126::int) \<and>
                     c \<notin> set ''.();@'' \<and> c \<noteq> CHR 0x5C \<and> c \<noteq> CHR 0x22) l)"

definition packName :: "string \<Rightarrow> string option" where
  "packName n =
     (if n = ''.'' then Some [CHR 0x00]
      else if n = [] \<or> last n \<noteq> CHR ''.'' then None
      else (let ls = splitOn (CHR ''.'') (butlast n);
                wire = concat (map (\<lambda>l. char_of (int (length l)) # l) ls) @ [CHR 0x00]
            in if list_all plainLabel ls \<and> int (length wire) \<le> 255 then Some wire else None))"

definition packQuestion :: "dns_Question \<Rightarrow> string option" where
  "packQuestion q =
     (case packName (Name q) of
        None \<Rightarrow> None
      | Some w \<Rightarrow> Some (w @ be16 (uint (Qtype q)) @ be16 (uint (Qclass q))))"

definition bit1 :: "bool \<Rightarrow> int" where
  "bit1 b = (if b then 1 else 0)"

definition ref_Pack :: "string dns_Msg \<Rightarrow> string option" where
  "ref_Pack m =
     (if Answer m \<noteq> [] \<or> Ns m \<noteq> [] \<or> Extra m \<noteq> [] \<or> Opcode m < 0 \<or> 15 < Opcode m \<or>
         Rcode m < 0 \<or> 15 < Rcode m \<or> 65535 < int (length (Question m))
      then None
      else case those (map packQuestion (Question m)) of
             None \<Rightarrow> None
           | Some qs \<Rightarrow>
               Some (be16 (uint (Id_msg m)) @
                     [char_of (bit1 (Response m) * 128 + Opcode m * 8 +
                               bit1 (Authoritative m) * 4 + bit1 (Truncated m) * 2 +
                               bit1 (RecursionDesired m)),
                      char_of (bit1 (RecursionAvailable m) * 128 + bit1 (Zero m) * 64 +
                               bit1 (AuthenticatedData m) * 32 + bit1 (CheckingDisabled m) * 16 +
                               Rcode m)] @
                     be16 (int (length (Question m))) @ be16 0 @ be16 0 @ be16 0 @ concat qs))"

fun unpackLabels :: "nat \<Rightarrow> string \<Rightarrow> (string list \<times> string) option" where
  "unpackLabels 0 bs = None"
| "unpackLabels (Suc k) [] = None"
| "unpackLabels (Suc k) (c # rest) =
     (let n = (of_char c :: int) in
      if n = 0 then Some ([], rest)
      else if 63 < n \<or> int (length rest) < n \<or> \<not> plainLabel (take (nat n) rest) then None
      else case unpackLabels k (drop (nat n) rest) of
             None \<Rightarrow> None
           | Some (ls, r) \<Rightarrow> Some (take (nat n) rest # ls, r))"

definition unpackQuestion :: "string \<Rightarrow> (dns_Question \<times> string) option" where
  "unpackQuestion bs =
     (case unpackLabels (length bs) bs of
        None \<Rightarrow> None
      | Some (ls, r) \<Rightarrow>
          (case r of
             a # b # c # d # r' \<Rightarrow>
               Some (\<lparr>Name = (if ls = [] then ''.'' else concat (map (\<lambda>l. l @ ''.'') ls)),
                       Qtype = word_of_int (rd16 a b), Qclass = word_of_int (rd16 c d)\<rparr>, r')
           | _ \<Rightarrow> None))"

fun unpackQuestions :: "nat \<Rightarrow> string \<Rightarrow> dns_Question list option" where
  "unpackQuestions 0 bs = Some []"
| "unpackQuestions (Suc k) bs =
     (case unpackQuestion bs of
        None \<Rightarrow> None
      | Some (q, r) \<Rightarrow>
          (case unpackQuestions k r of None \<Rightarrow> None | Some qs \<Rightarrow> Some (q # qs)))"

definition ref_Unpack :: "string \<Rightarrow> string dns_Msg option" where
  "ref_Unpack bs =
     (case bs of
        i1 # i2 # f1 # f2 # q1 # q2 # a1 # a2 # n1 # n2 # e1 # e2 # rest \<Rightarrow>
          (let b2 = (of_char f1 :: int); b3 = (of_char f2 :: int) in
           if rd16 a1 a2 \<noteq> 0 \<or> rd16 n1 n2 \<noteq> 0 \<or> rd16 e1 e2 \<noteq> 0 then None
           else case (if rest = [] then Some [] else unpackQuestions (nat (rd16 q1 q2)) rest) of
                  None \<Rightarrow> None
                | Some qs \<Rightarrow>
                    Some \<lparr>Id_msg = word_of_int (rd16 i1 i2), Response = (128 \<le> b2),
                          Opcode = (b2 div 8) mod 16,
                          Authoritative = ((b2 div 4) mod 2 = 1),
                          Truncated = ((b2 div 2) mod 2 = 1),
                          RecursionDesired = (b2 mod 2 = 1),
                          RecursionAvailable = (128 \<le> b3),
                          Zero = ((b3 div 64) mod 2 = 1),
                          AuthenticatedData = ((b3 div 32) mod 2 = 1),
                          CheckingDisabled = ((b3 div 16) mod 2 = 1),
                          Rcode = b3 mod 16, Compress = False,
                          Question = qs, Answer = [], Ns = [], Extra = []\<rparr>)
      | _ \<Rightarrow> None)"

definition reflib :: "(8 word list, string) golib" where
  "reflib =
     \<lparr>netip_ParseAddr = ref_ParseAddr,
      netip_ParseAddrPort = ref_ParseAddrPort,
      base64_RawURLDecodeString = ref_RawURLDecodeString,
      dns_Pack = ref_Pack,
      dns_Unpack = ref_Unpack,
      dns_Id = 0x1234,
      dns_TypeToString = ref_TypeToString,
      RR_String = (\<lambda>rr. rr),
      strings_ToUpper = ref_ToUpper,
      strconv_Atoi = ref_Atoi,
      http_parseBasicAuth = ref_parseBasicAuth\<rparr>"

text \<open>A request with nothing in it, to build the examples from.\<close>

definition emptyRequest :: http_Request where
  "emptyRequest =
     \<lparr>Method = ''GET'', URL_Path = ''/'', URL_Scheme = [], URL_Query = (\<lambda>k. []),
      Header = (\<lambda>k. []), RemoteAddr = [], Body = Some []\<rparr>"

section \<open>Example configurations and requests\<close>

definition authProxy :: "8 word list Proxy" where
  "authProxy =
     \<lparr>Userinfo = Some (UserPassword ''user'' ''pass''), HTTPSServerName = [],
      TrustedProxies = {}\<rparr>"

definition authRequest :: http_Request where
  "authRequest =
     emptyRequest\<lparr>Header := (\<lambda>k. [])(''Authorization'' := [''Basic dXNlcjpwYXNz''])\<rparr>"

definition peerRequest :: http_Request where
  "peerRequest = emptyRequest\<lparr>RemoteAddr := ''10.0.0.1:5353''\<rparr>"

definition xffRequest :: http_Request where
  "xffRequest =
     peerRequest\<lparr>Header := (\<lambda>k. [])(''X-Forwarded-For'' := [''9.9.9.9, 10.1.1.1''],
                                      ''X-Real-Ip'' := [''unknown''])\<rparr>"

definition cfRequest :: http_Request where
  "cfRequest =
     peerRequest\<lparr>Header := (\<lambda>k. [])(''X-Forwarded-For'' := [''8.8.8.8''],
                                      ''Cf-Connecting-Ip'' := ['' 9.9.9.9''])\<rparr>"

definition trustingProxy :: "8 word list Proxy" where
  "trustingProxy = \<lparr>Userinfo = None, HTTPSServerName = [], TrustedProxies = {[10, 0, 0, 1]}\<rparr>"

definition untrustingProxy :: "8 word list Proxy" where
  "untrustingProxy = \<lparr>Userinfo = None, HTTPSServerName = [], TrustedProxies = {[10, 0, 0, 2]}\<rparr>"

definition cfJsonRequest :: http_Request where
  "cfJsonRequest =
     cfRequest\<lparr>URL_Path := ''/resolve'',
                URL_Query := (\<lambda>k. [])(''name'' := [''example.com''], ''type'' := [''a''])\<rparr>"

definition badDnsParamRequest :: http_Request where
  "badDnsParamRequest =
     emptyRequest\<lparr>URL_Path := ''/dns-query'', URL_Query := (\<lambda>k. [])(''dns'' := [''!!!''])\<rparr>"

definition emptyDnsParamRequest :: http_Request where
  "emptyDnsParamRequest = emptyRequest\<lparr>URL_Path := ''/doh''\<rparr>"

definition shortDnsParamRequest :: http_Request where
  "shortDnsParamRequest =
     emptyRequest\<lparr>URL_Path := ''/doh'', URL_Query := (\<lambda>k. [])(''dns'' := [''AAAA''])\<rparr>"

definition textPostRequest :: http_Request where
  "textPostRequest =
     emptyRequest\<lparr>Method := ''POST'', Header := (\<lambda>k. [])(''Content-Type'' := [''text/plain'']),
                   Body := Some ''abc''\<rparr>"

definition shortPostRequest :: http_Request where
  "shortPostRequest =
     emptyRequest\<lparr>Method := ''POST'',
                   Header := (\<lambda>k. [])(''Content-Type'' := [''application/dns-message'']),
                   Body := Some ''abc''\<rparr>"

definition putRequest :: http_Request where
  "putRequest = emptyRequest\<lparr>Method := ''PUT'', URL_Path := ''/dns-query''\<rparr>"

definition rootRequest :: http_Request where
  "rootRequest =
     emptyRequest\<lparr>URL_Path := ''/resolve'', URL_Query := (\<lambda>k. [])(''type'' := [''ns''])\<rparr>"

definition httpsJsonRequest :: http_Request where
  "httpsJsonRequest =
     peerRequest\<lparr>URL_Path := ''/resolve'', URL_Scheme := ''https'',
                  URL_Query := (\<lambda>k. [])(''name'' := [''example.com''])\<rparr>"

definition plainProxy :: "8 word list Proxy" where
  "plainProxy = \<lparr>Userinfo = None, HTTPSServerName = [], TrustedProxies = {}\<rparr>"

text \<open>An answer without records to the query for \<open>example.com\<close>.\<close>

definition emptyAnswer :: "string dns_Msg" where
  "emptyAnswer =
     (httpArgsMsg reflib ''example.com.'' dns_TypeA)\<lparr>Response := True, RecursionAvailable := True\<rparr>"

definition trailingSpaceRequest :: http_Request where
  "trailingSpaceRequest =
     emptyRequest\<lparr>URL_Path := ''/resolve'',
                   URL_Query := (\<lambda>k. [])(''name'' := [''example.com. ''], ''type'' := [''A''])\<rparr>"

text \<open>An answer with an address record, a \<open>nil\<close> record and an alias record.\<close>

definition addressAnswer :: "string dns_Msg" where
  "addressAnswer =
     emptyAnswer\<lparr>Answer :=
       [Some (''example.com.'' @ [CHR 0x09] @ ''300'' @ [CHR 0x09] @ ''IN'' @ [CHR 0x09] @ ''A'' @
              [CHR 0x09] @ ''93.184.216.34''),
        None,
        Some (''www.example.com.'' @ [CHR 0x09] @ ''60'' @ [CHR 0x09] @ ''IN'' @ [CHR 0x09] @
              ''CNAME'' @ [CHR 0x09] @ ''example.com.'')]\<rparr>"

definition httpContext :: "(8 word list, string) DNSContext" where
  "httpContext =
     (newDNSContext ProtoHTTP (httpArgsMsg reflib ''example.com.'' dns_TypeA) AddrPortZero)
       \<lparr>AnswerType := HttpDnsAnswerTypeJsonAnswer, Res := Some addressAnswer\<rparr>"

definition spoofRequest :: http_Request where
  "spoofRequest =
     cfRequest\<lparr>URL_Path := ''/resolve'',
                URL_Query := (\<lambda>k. [])(''name'' := [''example.com''], ''ip'' := [''10.0.0.2:1''])\<rparr>"

section \<open>Properties\<close>

subsection \<open>Strings\<close>

lemma IndexByte_takeWhile:
  "IndexByte s c = (if c \<in> set s then int (length (takeWhile (\<lambda>x. x \<noteq> c) s)) else -1)"
  by (induction s) (auto simp: Let_def)

lemma firstToken_code:
  "(if IndexByte s c > 0 then take (nat (IndexByte s c)) s else s) =
   (if hd s = c \<and> s \<noteq> [] then s else takeWhile (\<lambda>x. x \<noteq> c) s)"
proof (cases "c \<in> set s")
  case False
  then have tw: "takeWhile (\<lambda>x. x \<noteq> c) s = s" by (auto intro: takeWhile_eq_all_conv[THEN iffD2])
  from False show ?thesis by (simp add: IndexByte_takeWhile tw)
next
  case True
  then obtain x xs where s: "s = x # xs" by (cases s) auto
  show ?thesis
  proof (cases "x = c")
    case True
    with s show ?thesis by simp
  next
    case False
    define n where "n = length (takeWhile (\<lambda>x. x \<noteq> c) s)"
    from s False have "0 < n" by (simp add: n_def)
    moreover from True have "IndexByte s c = int n"
      by (simp add: IndexByte_takeWhile n_def)
    moreover have "take n s = takeWhile (\<lambda>x. x \<noteq> c) s"
      unfolding n_def by (rule takeWhile_eq_take[symmetric])
    moreover from s False have "hd s \<noteq> c" by simp
    ultimately show ?thesis by simp
  qed
qed

lemma cutPrefixOf_Some:
  assumes "cutPrefixOf seqs s = Some s'"
  obtains e where "e \<in> set seqs" "e \<noteq> []" "take (length e) s = e" "s' = drop (length e) s"
proof -
  from assms obtain e es where f: "filter (\<lambda>e. e \<noteq> [] \<and> HasPrefix s e) seqs = e # es"
    and s': "s' = drop (length e) s"
    by (auto simp: cutPrefixOf_def split: list.splits)
  from f have "e \<in> set (filter (\<lambda>e. e \<noteq> [] \<and> HasPrefix s e) seqs)" by simp
  then have "e \<in> set seqs" "e \<noteq> []" "take (length e) s = e" by (auto simp: HasPrefix_def)
  with s' that show thesis by blast
qed

lemma trimPrefixes_keeps_last:
  assumes "\<forall>e\<in>set seqs. c \<notin> set e"
  shows "\<exists>ys. trimPrefixes seqs (xs @ [c]) = ys @ [c]"
proof (induction "length xs" arbitrary: xs rule: less_induct)
  case less
  show ?case
  proof (cases "cutPrefixOf seqs (xs @ [c])")
    case None
    then show ?thesis by (subst trimPrefixes.simps) simp
  next
    case (Some s')
    then obtain e where e: "e \<in> set seqs" "e \<noteq> []" "take (length e) (xs @ [c]) = e"
      "s' = drop (length e) (xs @ [c])"
      by (rule cutPrefixOf_Some)
    have "length e \<le> length xs"
    proof (rule ccontr)
      assume "\<not> length e \<le> length xs"
      then have "take (length e) (xs @ [c]) = xs @ [c]" by simp
      with e(3) have "c \<in> set e" by (metis in_set_conv_decomp)
      with assms e(1) show False by blast
    qed
    with e(4) have s': "s' = drop (length e) xs @ [c]" by simp
    from e(2) \<open>length e \<le> length xs\<close> have "length (drop (length e) xs) < length xs"
      by (cases e) auto
    from less[OF this] obtain ys where "trimPrefixes seqs (drop (length e) xs @ [c]) = ys @ [c]"
      by blast
    with Some s' show ?thesis by (subst trimPrefixes.simps) simp
  qed
qed

lemma TrimSpace_comma: "\<exists>t. TrimSpace (CHR '','' # s) = CHR '','' # t"
proof -
  have "cutPrefixOf spaceSeqs (CHR '','' # s) = None"
    by (simp add: cutPrefixOf_def spaceSeqs_def HasPrefix_def)
  then have l: "trimPrefixes spaceSeqs (CHR '','' # s) = CHR '','' # s"
    by (subst trimPrefixes.simps) simp
  have "\<forall>e\<in>set (map rev spaceSeqs). CHR '','' \<notin> set e"
    by (simp add: spaceSeqs_def)
  from trimPrefixes_keeps_last[OF this, of "rev s"]
  obtain ys where "trimPrefixes (map rev spaceSeqs) (rev s @ [CHR '','']) = ys @ [CHR '','']"
    by blast
  with l show ?thesis by (simp add: TrimSpace_def)
qed

lemma TrimSpace_Nil: "TrimSpace [] = []"
proof -
  have "cutPrefixOf spaceSeqs [] = None" "cutPrefixOf (map rev spaceSeqs) [] = None"
    by (simp_all add: cutPrefixOf_def spaceSeqs_def HasPrefix_def)
  then have "trimPrefixes spaceSeqs [] = []" "trimPrefixes (map rev spaceSeqs) [] = []"
    by (subst trimPrefixes.simps, simp)+
  then show ?thesis by (simp add: TrimSpace_def)
qed

subsection \<open>Basic authentication\<close>

lemma http_Error_StatusCode:
  "StatusCode w = None \<Longrightarrow> StatusCode (http_Error w msg code) = Some code"
  by (simp add: http_Error_def Write_def WriteHeader_def Header_Set_def Header_Del_def Let_def)

lemma http_Error_Header_other:
  "k \<noteq> ''Content-Length'' \<Longrightarrow> k \<noteq> ''Content-Type'' \<Longrightarrow> k \<noteq> ''X-Content-Type-Options'' \<Longrightarrow>
   Header_w (http_Error w msg code) k = Header_w w k"
  by (simp add: http_Error_def Write_def WriteHeader_def Header_Set_def Header_Del_def Let_def)

text \<open>
  Claim C8. Without a configured credential \<open>checkBasicAuth\<close> lets every request
  through and leaves the response alone. With a credential it lets a request through
  exactly when the user name and the password that \<open>BasicAuth\<close> returns for it (both
  empty when the request carries no Basic credentials) are equal, byte for byte, to
  the configured user name and password; otherwise it sets the header
  \<open>WWW-Authenticate: Basic realm="DNS", charset="UTF-8"\<close>, writes status 401 and
  returns \<open>False\<close>. The response writer has not been written to before, as in
  \<open>ServeHTTP\<close>.
\<close>

theorem checkBasicAuth_guard:
  assumes "StatusCode w = None"
  shows "(Userinfo p = None \<longrightarrow> checkBasicAuth lib p w r raddr = (True, w)) \<and>
         (\<forall>ui. Userinfo p = Some ui \<longrightarrow>
            (fst (checkBasicAuth lib p w r raddr) \<longleftrightarrow>
               fst (BasicAuth lib r) = Username ui \<and>
               fst (snd (BasicAuth lib r)) = fst (Password ui)) \<and>
            (fst (checkBasicAuth lib p w r raddr) \<longrightarrow>
               snd (checkBasicAuth lib p w r raddr) = w) \<and>
            (\<not> fst (checkBasicAuth lib p w r raddr) \<longrightarrow>
               Header_w (snd (checkBasicAuth lib p w r raddr)) httphdr_WWWAuthenticate =
                 Some (''Basic realm='' @ [CHR 0x22] @ ''DNS'' @ [CHR 0x22] @ '', charset='' @
                       [CHR 0x22] @ ''UTF-8'' @ [CHR 0x22]) \<and>
               StatusCode (snd (checkBasicAuth lib p w r raddr)) = Some 401))"
proof (intro conjI allI impI)
  assume "Userinfo p = None"
  then show "checkBasicAuth lib p w r raddr = (True, w)"
    by (simp add: checkBasicAuth_def)
next
  fix ui
  assume a: "Userinfo p = Some ui"
  then show "fst (checkBasicAuth lib p w r raddr) \<longleftrightarrow>
      fst (BasicAuth lib r) = Username ui \<and> fst (snd (BasicAuth lib r)) = fst (Password ui)"
    by (simp add: checkBasicAuth_def matchesUserinfo_def split: prod.splits)
  from a show "snd (checkBasicAuth lib p w r raddr) = w" if "fst (checkBasicAuth lib p w r raddr)"
    using that by (simp add: checkBasicAuth_def split: if_splits prod.splits)
  assume n: "\<not> fst (checkBasicAuth lib p w r raddr)"
  with a have e: "snd (checkBasicAuth lib p w r raddr) =
      http_Error (Header_Set w httphdr_WWWAuthenticate wwwAuthenticateValue)
        ''Authorization required'' http_StatusUnauthorized"
    by (simp add: checkBasicAuth_def split: if_splits prod.splits)
  show "Header_w (snd (checkBasicAuth lib p w r raddr)) httphdr_WWWAuthenticate =
                 Some (''Basic realm='' @ [CHR 0x22] @ ''DNS'' @ [CHR 0x22] @ '', charset='' @
                       [CHR 0x22] @ ''UTF-8'' @ [CHR 0x22])"
    unfolding e by (simp add: http_Error_Header_other httphdr_WWWAuthenticate_def
        Header_Set_def wwwAuthenticateValue_def)
  show "StatusCode (snd (checkBasicAuth lib p w r raddr)) = Some 401"
    unfolding e using assms
    by (simp add: http_Error_StatusCode Header_Set_def http_StatusUnauthorized_def)
qed

theorem checkBasicAuth_guard_witness:
  "fst (checkBasicAuth reflib authProxy newResponseWriter authRequest AddrPortZero) \<and>
   \<not> fst (checkBasicAuth reflib authProxy newResponseWriter emptyRequest AddrPortZero) \<and>
   StatusCode (snd (checkBasicAuth reflib authProxy newResponseWriter emptyRequest AddrPortZero)) = Some 401 \<and>
   checkBasicAuth reflib (authProxy\<lparr>Userinfo := None\<rparr>) newResponseWriter emptyRequest AddrPortZero
     = (True, newResponseWriter)"
proof -
  have s: "StatusCode newResponseWriter = None" by (simp add: newResponseWriter_def)
  have u: "Userinfo authProxy = Some (UserPassword ''user'' ''pass'')" by (simp add: authProxy_def)
  have b1: "BasicAuth reflib authRequest = (''user'', ''pass'', True)" by code_simp
  have b2: "BasicAuth reflib emptyRequest = ([], [], False)" by code_simp
  note t1 = checkBasicAuth_guard[OF s, of authProxy reflib authRequest AddrPortZero]
  note t2 = checkBasicAuth_guard[OF s, of authProxy reflib emptyRequest AddrPortZero]
  note t3 = checkBasicAuth_guard[OF s, of "authProxy\<lparr>Userinfo := None\<rparr>" reflib emptyRequest AddrPortZero]
  from t1 u b1 have c1: "fst (checkBasicAuth reflib authProxy newResponseWriter authRequest AddrPortZero)"
    by simp
  from t2 u b2 have c2: "\<not> fst (checkBasicAuth reflib authProxy newResponseWriter emptyRequest AddrPortZero)"
    by simp
  from t2 u b2 c2 have c3: "StatusCode (snd (checkBasicAuth reflib authProxy newResponseWriter emptyRequest AddrPortZero)) = Some 401"
    by blast
  from t3 have c4: "checkBasicAuth reflib (authProxy\<lparr>Userinfo := None\<rparr>) newResponseWriter emptyRequest AddrPortZero
     = (True, newResponseWriter)" by simp
  show ?thesis using c1 c2 c3 c4 by simp
qed

subsection \<open>The client's address\<close>

lemma ref_ParseAddr_Nil: "ref_ParseAddr [] = None"
  by (simp add: ref_ParseAddr_def)

lemma ref_ParseAddr_comma: "ref_ParseAddr (CHR '','' # s) = None"
  by (auto simp: ref_ParseAddr_def parseOctet_def isDigit_def split: list.splits)

text \<open>
  Claim C6. \<open>realIPFromHdrs\<close> tries \<open>CF-Connecting-IP\<close>, \<open>True-Client-IP\<close> and
  \<open>X-Real-IP\<close> in this order, each trimmed of white space and parsed as a bare
  address, and returns the first that parses; if none does, it parses the first
  comma-separated token of \<open>X-Forwarded-For\<close>. If that fails too,
  \<open>remoteAddrWithRemoteHost\<close> returns the peer address (or the \<open>ip\<close> override, when it
  parses) as the only address, a proxy address that is not valid, and no error.
  The address parser rejects the empty string and every string that starts with a
  comma, as \<open>netip.ParseAddr\<close> does.
\<close>

theorem realIPFromHdrs_priority:
  assumes "netip_ParseAddr lib [] = None"
    and "\<forall>s. netip_ParseAddr lib (CHR '','' # s) = None"
  shows "realIPFromHdrs lib r =
           (case netip_ParseAddr lib (TrimSpace (Get (Header r) httphdr_CFConnectingIP)) of
              Some a \<Rightarrow> Some a
            | None \<Rightarrow>
           (case netip_ParseAddr lib (TrimSpace (Get (Header r) httphdr_TrueClientIP)) of
              Some a \<Rightarrow> Some a
            | None \<Rightarrow>
           (case netip_ParseAddr lib (TrimSpace (Get (Header r) httphdr_XRealIP)) of
              Some a \<Rightarrow> Some a
            | None \<Rightarrow>
                netip_ParseAddr lib
                  (TrimSpace (takeWhile (\<lambda>c. c \<noteq> CHR '','')
                     (Get (Header r) httphdr_XForwardedFor)))))) \<and>
         (\<forall>a pt. realIPFromHdrs lib r = None \<and>
                  netip_ParseAddrPort lib (RemoteAddr r) = Some (a, pt) \<longrightarrow>
            remoteAddrWithRemoteHost lib r remoteHostStr =
              (if remoteHostStr \<noteq> []
               then (case netip_ParseAddrPort lib remoteHostStr of
                       Some (a', p') \<Rightarrow> AddrPortFrom a' p'
                     | None \<Rightarrow> AddrPortFrom a pt)
               else AddrPortFrom a pt,
               AddrPortZero, None) \<and>
            \<not> IsValid (fst (snd (remoteAddrWithRemoteHost lib r remoteHostStr))))"
proof (intro conjI allI impI)
  define xff where "xff = Get (Header r) httphdr_XForwardedFor"
  have "netip_ParseAddr lib
          (TrimSpace (if IndexByte xff (CHR '','') > 0
                      then take (nat (IndexByte xff (CHR '',''))) xff else xff)) =
        netip_ParseAddr lib (TrimSpace (takeWhile (\<lambda>c. c \<noteq> CHR '','') xff))"
  proof (cases xff)
    case Nil
    then show ?thesis by simp
  next
    case (Cons x xs)
    show ?thesis
    proof (cases "x = CHR '',''")
      case True
      with Cons have "takeWhile (\<lambda>c. c \<noteq> CHR '','') xff = []" by simp
      moreover from True Cons obtain t where "TrimSpace xff = CHR '','' # t"
        using TrimSpace_comma[of xs] by auto
      ultimately show ?thesis
        using assms True Cons by (simp add: TrimSpace_Nil)
    next
      case False
      with Cons show ?thesis by (simp only: firstToken_code) simp
    qed
  qed
  then show "realIPFromHdrs lib r =
           (case netip_ParseAddr lib (TrimSpace (Get (Header r) httphdr_CFConnectingIP)) of
              Some a \<Rightarrow> Some a
            | None \<Rightarrow>
           (case netip_ParseAddr lib (TrimSpace (Get (Header r) httphdr_TrueClientIP)) of
              Some a \<Rightarrow> Some a
            | None \<Rightarrow>
           (case netip_ParseAddr lib (TrimSpace (Get (Header r) httphdr_XRealIP)) of
              Some a \<Rightarrow> Some a
            | None \<Rightarrow>
                netip_ParseAddr lib
                  (TrimSpace (takeWhile (\<lambda>c. c \<noteq> CHR '','')
                     (Get (Header r) httphdr_XForwardedFor))))))"
    unfolding xff_def
    by (auto simp add: realIPFromHdrs_def Let_def split: option.splits if_splits)
next
  fix a pt
  assume h: "realIPFromHdrs lib r = None \<and> netip_ParseAddrPort lib (RemoteAddr r) = Some (a, pt)"
  then show e: "remoteAddrWithRemoteHost lib r remoteHostStr =
              (if remoteHostStr \<noteq> []
               then (case netip_ParseAddrPort lib remoteHostStr of
                       Some (a', p') \<Rightarrow> AddrPortFrom a' p'
                     | None \<Rightarrow> AddrPortFrom a pt)
               else AddrPortFrom a pt,
               AddrPortZero, None)"
    by (simp add: remoteAddrWithRemoteHost_def Let_def)
  show "\<not> IsValid (fst (snd (remoteAddrWithRemoteHost lib r remoteHostStr)))"
    unfolding e by (simp add: IsValid_def AddrPortZero_def)
qed

theorem realIPFromHdrs_priority_witness:
  "realIPFromHdrs reflib cfRequest = Some [9, 9, 9, 9] \<and>
   realIPFromHdrs reflib xffRequest = Some [9, 9, 9, 9] \<and>
   remoteAddrWithRemoteHost reflib peerRequest [] =
     (AddrPortFrom [10, 0, 0, 1] 5353, AddrPortZero, None)"
proof -
  have h1: "netip_ParseAddr reflib [] = None"
    by (simp add: reflib_def ref_ParseAddr_Nil)
  have h2: "\<forall>s. netip_ParseAddr reflib (CHR '','' # s) = None"
    by (simp add: reflib_def ref_ParseAddr_comma)
  have c1: "netip_ParseAddr reflib (TrimSpace (Get (Header cfRequest) httphdr_CFConnectingIP))
              = Some [9, 9, 9, 9]"
    by code_simp
  have x1: "netip_ParseAddr reflib (TrimSpace (Get (Header xffRequest) httphdr_CFConnectingIP)) = None"
    and x2: "netip_ParseAddr reflib (TrimSpace (Get (Header xffRequest) httphdr_TrueClientIP)) = None"
    and x3: "netip_ParseAddr reflib (TrimSpace (Get (Header xffRequest) httphdr_XRealIP)) = None"
    and x4: "netip_ParseAddr reflib (TrimSpace (takeWhile (\<lambda>c. c \<noteq> CHR '','')
               (Get (Header xffRequest) httphdr_XForwardedFor))) = Some [9, 9, 9, 9]"
    by code_simp+
  have p1: "netip_ParseAddr reflib (TrimSpace (Get (Header peerRequest) httphdr_CFConnectingIP)) = None"
    and p2: "netip_ParseAddr reflib (TrimSpace (Get (Header peerRequest) httphdr_TrueClientIP)) = None"
    and p3: "netip_ParseAddr reflib (TrimSpace (Get (Header peerRequest) httphdr_XRealIP)) = None"
    and p4: "netip_ParseAddr reflib (TrimSpace (takeWhile (\<lambda>c. c \<noteq> CHR '','')
               (Get (Header peerRequest) httphdr_XForwardedFor))) = None"
    and p5: "netip_ParseAddrPort reflib (RemoteAddr peerRequest) = Some ([10, 0, 0, 1], 5353)"
    by code_simp+
  note t = realIPFromHdrs_priority[OF h1 h2]
  from t[of cfRequest] c1 have r1: "realIPFromHdrs reflib cfRequest = Some [9, 9, 9, 9]"
    by simp
  from t[of xffRequest] x1 x2 x3 x4 have r2: "realIPFromHdrs reflib xffRequest = Some [9, 9, 9, 9]"
    by simp
  from t[of peerRequest] p1 p2 p3 p4 have n: "realIPFromHdrs reflib peerRequest = None"
    by simp
  from t[of peerRequest "[]"] n p5
  have r3: "remoteAddrWithRemoteHost reflib peerRequest [] =
     (AddrPortFrom [10, 0, 0, 1] 5353, AddrPortZero, None)"
    by simp
  from r1 r2 r3 show ?thesis by simp
qed

text \<open>
  Claim C3, as amended. When the peer address parses and the \<open>ip\<close> override is not
  empty and parses as an address with a port (\<open>netip.ParseAddrPort\<close>), the override takes the
  place of the peer address: it is the client address when the headers give none, and
  the proxy address when they do. When the override is empty or does not parse as an
  address with a port, the peer address is used and no error is returned.
\<close>

theorem remoteHost_override:
  assumes "netip_ParseAddrPort lib (RemoteAddr r) = Some (a, pt)"
  shows "(\<forall>a' p'. remoteHostStr \<noteq> [] \<and> netip_ParseAddrPort lib remoteHostStr = Some (a', p') \<longrightarrow>
            remoteAddrWithRemoteHost lib r remoteHostStr =
              (case realIPFromHdrs lib r of
                 None \<Rightarrow> (AddrPortFrom a' p', AddrPortZero, None)
               | Some realIP \<Rightarrow> (AddrPortFrom realIP 0, AddrPortFrom a' p', None))) \<and>
         (remoteHostStr = [] \<or> netip_ParseAddrPort lib remoteHostStr = None \<longrightarrow>
            remoteAddrWithRemoteHost lib r remoteHostStr =
              (case realIPFromHdrs lib r of
                 None \<Rightarrow> (AddrPortFrom a pt, AddrPortZero, None)
               | Some realIP \<Rightarrow> (AddrPortFrom realIP 0, AddrPortFrom a pt, None)))"
  using assms
  by (auto simp: remoteAddrWithRemoteHost_def Let_def split: option.splits)

theorem remoteHost_override_witness:
  "remoteAddrWithRemoteHost reflib peerRequest ''1.2.3.4:53'' =
     (AddrPortFrom [1, 2, 3, 4] 53, AddrPortZero, None) \<and>
   remoteAddrWithRemoteHost reflib cfRequest ''1.2.3.4:53'' =
     (AddrPortFrom [9, 9, 9, 9] 0, AddrPortFrom [1, 2, 3, 4] 53, None) \<and>
   remoteAddrWithRemoteHost reflib cfRequest ''localhost'' =
     (AddrPortFrom [9, 9, 9, 9] 0, AddrPortFrom [10, 0, 0, 1] 5353, None)"
proof -
  have p: "netip_ParseAddrPort reflib (RemoteAddr peerRequest) = Some ([10, 0, 0, 1], 5353)"
    and c: "netip_ParseAddrPort reflib (RemoteAddr cfRequest) = Some ([10, 0, 0, 1], 5353)"
    and o: "netip_ParseAddrPort reflib ''1.2.3.4:53'' = Some ([1, 2, 3, 4], 53)"
    and l: "netip_ParseAddrPort reflib ''localhost'' = None"
    and rp: "realIPFromHdrs reflib peerRequest = None"
    and rc: "realIPFromHdrs reflib cfRequest = Some [9, 9, 9, 9]"
    by code_simp+
  from remoteHost_override[OF p, of "''1.2.3.4:53''"] o rp
  have r1: "remoteAddrWithRemoteHost reflib peerRequest ''1.2.3.4:53'' =
     (AddrPortFrom [1, 2, 3, 4] 53, AddrPortZero, None)" by simp
  from remoteHost_override[OF c, of "''1.2.3.4:53''"] o rc
  have r2: "remoteAddrWithRemoteHost reflib cfRequest ''1.2.3.4:53'' =
     (AddrPortFrom [9, 9, 9, 9] 0, AddrPortFrom [1, 2, 3, 4] 53, None)" by simp
  from remoteHost_override[OF c, of "''localhost''"] l rc
  have r3: "remoteAddrWithRemoteHost reflib cfRequest ''localhost'' =
     (AddrPortFrom [9, 9, 9, 9] 0, AddrPortFrom [10, 0, 0, 1] 5353, None)" by simp
  from r1 r2 r3 show ?thesis by simp
qed

text \<open>
  The claim as stated fails for an override that is a valid address without a port:
  \<open>1.2.3.4\<close> parses as an address, and the peer address is used all the same.
\<close>

theorem remoteHost_bare_address_counterexample:
  "netip_ParseAddr reflib ''1.2.3.4'' = Some [1, 2, 3, 4] \<and>
   remoteAddrWithRemoteHost reflib peerRequest ''1.2.3.4'' =
     (AddrPortFrom [10, 0, 0, 1] 5353, AddrPortZero, None)"
  by code_simp

text \<open>
  The trust decision of \<open>ServeHTTP\<close> is taken on \<open>host\<close>, the address
  \<open>remoteAddrWithRemoteHost\<close> reports as the proxy: the connection's peer, or the \<open>ip\<close>
  override when there is one and it parses. For a request that decodes to a query,
  passes \<open>checkBasicAuth\<close> and whose headers yield a real-client address \<open>realIP\<close>: if
  \<open>host\<close> is not in the trusted-proxy set, the context handed to the resolver has
  \<open>host\<close> as its client address; if it is, the client address is \<open>realIP\<close> with port 0
  and the proxy address is \<open>host\<close>.
\<close>

theorem ServeHTTP_proxy_trust:
  assumes "newDoHOrHttpReq lib r = (Some req, code, answerType, remoteHostStr)"
    and "netip_ParseAddrPort lib (RemoteAddr r) = Some (a, pt)"
    and "realIPFromHdrs lib r = Some realIP"
    and "fst (checkBasicAuth lib p w r (AddrPortFrom realIP 0))"
    and "host = (if remoteHostStr \<noteq> []
                 then (case netip_ParseAddrPort lib remoteHostStr of
                         Some (a', p') \<Rightarrow> AddrPortFrom a' p'
                       | None \<Rightarrow> AddrPortFrom a pt)
                 else AddrPortFrom a pt)"
  shows "(\<not> Contains (TrustedProxies p) (ip host) \<longrightarrow>
            map_option Addr (snd (ServeHTTP lib p w r)) = Some host) \<and>
         (Contains (TrustedProxies p) (ip host) \<longrightarrow>
            map_option Addr (snd (ServeHTTP lib p w r)) = Some (AddrPortFrom realIP 0) \<and>
            map_option PreAddr (snd (ServeHTTP lib p w r)) = Some host)"
proof -
  have v: "IsValid host"
    using assms(5) by (simp add: IsValid_def AddrPortFrom_def split: option.splits)
  have ra: "remoteAddrWithRemoteHost lib r remoteHostStr = (AddrPortFrom realIP 0, host, None)"
    using assms(2,3,5) by (simp add: remoteAddrWithRemoteHost_def Let_def)
  obtain w' where c: "checkBasicAuth lib p w r (AddrPortFrom realIP 0) = (True, w')"
    using assms(4) by (cases "checkBasicAuth lib p w r (AddrPortFrom realIP 0)") auto
  show ?thesis
    using assms(1) ra c v
    by (simp add: ServeHTTP_def Let_def newDNSContext_def)
qed

theorem ServeHTTP_proxy_trust_witness:
  "map_option Addr (snd (ServeHTTP reflib untrustingProxy newResponseWriter cfJsonRequest)) =
     Some (AddrPortFrom [10, 0, 0, 1] 5353) \<and>
   map_option Addr (snd (ServeHTTP reflib trustingProxy newResponseWriter cfJsonRequest)) =
     Some (AddrPortFrom [9, 9, 9, 9] 0) \<and>
   map_option PreAddr (snd (ServeHTTP reflib trustingProxy newResponseWriter cfJsonRequest)) =
     Some (AddrPortFrom [10, 0, 0, 1] 5353)"
proof -
  have d: "newDoHOrHttpReq reflib cfJsonRequest =
             (Some (httpArgsMsg reflib ''example.com.'' dns_TypeA), 200, 1, [])"
    by code_simp
  have pa: "netip_ParseAddrPort reflib (RemoteAddr cfJsonRequest) = Some ([10, 0, 0, 1], 5353)"
    by code_simp
  have ri: "realIPFromHdrs reflib cfJsonRequest = Some [9, 9, 9, 9]"
    by code_simp
  have au: "fst (checkBasicAuth reflib trustingProxy newResponseWriter cfJsonRequest
                  (AddrPortFrom [9, 9, 9, 9] 0))"
    and au': "fst (checkBasicAuth reflib untrustingProxy newResponseWriter cfJsonRequest
                  (AddrPortFrom [9, 9, 9, 9] 0))"
    by (simp_all add: checkBasicAuth_def trustingProxy_def untrustingProxy_def)
  have h: "AddrPortFrom [10, 0, 0, 1] 5353 =
            (if [] \<noteq> []
             then (case netip_ParseAddrPort reflib [] of
                     Some (a', p') \<Rightarrow> AddrPortFrom a' p'
                   | None \<Rightarrow> AddrPortFrom [10, 0, 0, 1] 5353)
             else AddrPortFrom [10, 0, 0, 1] (5353 :: 16 word))"
    by simp
  have t1: "Contains (TrustedProxies trustingProxy) (ip (AddrPortFrom [10, 0, 0, 1] 5353))"
    and t2: "\<not> Contains (TrustedProxies untrustingProxy) (ip (AddrPortFrom [10, 0, 0, 1] 5353))"
    by (simp_all add: Contains_def trustingProxy_def untrustingProxy_def AddrPortFrom_def)
  from ServeHTTP_proxy_trust[OF d pa ri au' h] t2
  have r1: "map_option Addr (snd (ServeHTTP reflib untrustingProxy newResponseWriter cfJsonRequest)) =
     Some (AddrPortFrom [10, 0, 0, 1] 5353)" by blast
  from ServeHTTP_proxy_trust[OF d pa ri au h] t1
  have r2: "map_option Addr (snd (ServeHTTP reflib trustingProxy newResponseWriter cfJsonRequest)) =
     Some (AddrPortFrom [9, 9, 9, 9] 0) \<and>
   map_option PreAddr (snd (ServeHTTP reflib trustingProxy newResponseWriter cfJsonRequest)) =
     Some (AddrPortFrom [10, 0, 0, 1] 5353)" by blast
  from r1 r2 show ?thesis by simp
qed

text \<open>
  Claim C2 does not hold on the code when the request carries an \<open>ip\<close> override. The
  peer \<open>10.0.0.1\<close> is not in the trusted-proxy set, the override \<open>10.0.0.2:1\<close> names an
  address that is, and the header \<open>CF-Connecting-IP\<close> says \<open>9.9.9.9\<close>: the trust test is
  made on the override, so the context handed to the resolver has the address from the
  header as its client address, not the peer's.
\<close>

theorem ServeHTTP_untrusted_peer_override:
  "netip_ParseAddrPort reflib (RemoteAddr spoofRequest) = Some ([10, 0, 0, 1], 5353) \<and>
   \<not> Contains (TrustedProxies untrustingProxy) (Some [10, 0, 0, 1]) \<and>
   realIPFromHdrs reflib spoofRequest = Some [9, 9, 9, 9] \<and>
   Get (URL_Query spoofRequest) ''ip'' = ''10.0.0.2:1'' \<and>
   map_option Addr (snd (ServeHTTP reflib untrustingProxy newResponseWriter spoofRequest)) =
     Some (AddrPortFrom [9, 9, 9, 9] 0) \<and>
   map_option PreAddr (snd (ServeHTTP reflib untrustingProxy newResponseWriter spoofRequest)) =
     Some (AddrPortFrom [10, 0, 0, 2] 1)"
proof -
  have 1: "netip_ParseAddrPort reflib (RemoteAddr spoofRequest) = Some ([10, 0, 0, 1], 5353)"
    and 3: "realIPFromHdrs reflib spoofRequest = Some [9, 9, 9, 9]"
    and 4: "Get (URL_Query spoofRequest) ''ip'' = ''10.0.0.2:1''"
    and d: "newDoHOrHttpReq reflib spoofRequest =
              (Some (httpArgsMsg reflib ''example.com.'' dns_TypeA), 200, 1, ''10.0.0.2:1'')"
    and o: "netip_ParseAddrPort reflib ''10.0.0.2:1'' = Some ([10, 0, 0, 2], 1)"
    by code_simp+
  have 2: "\<not> Contains (TrustedProxies untrustingProxy) (Some [10, 0, 0, 1])"
    and t: "Contains (TrustedProxies untrustingProxy) (Some [10, 0, 0, 2])"
    and u: "Userinfo untrustingProxy = None"
    by (simp_all add: Contains_def untrustingProxy_def)
  have ra: "remoteAddrWithRemoteHost reflib spoofRequest ''10.0.0.2:1'' =
              (AddrPortFrom [9, 9, 9, 9] 0, AddrPortFrom [10, 0, 0, 2] 1, None)"
    using 1 3 o by (simp add: remoteAddrWithRemoteHost_def Let_def)
  have s: "snd (ServeHTTP reflib untrustingProxy newResponseWriter spoofRequest) =
             Some ((newDNSContext ProtoHTTP (httpArgsMsg reflib ''example.com.'' dns_TypeA)
                      (AddrPortFrom [9, 9, 9, 9] 0))
                   \<lparr>PreAddr := AddrPortFrom [10, 0, 0, 2] 1, AnswerType := 1,
                     XForwardedFor := Get (Header spoofRequest) httphdr_XForwardedFor\<rparr>)"
    using d ra t u
    by (simp add: ServeHTTP_def checkBasicAuth_def Let_def IsValid_def AddrPortFrom_def
        spoofRequest_def cfRequest_def peerRequest_def emptyRequest_def ToLower_def)
  have 5: "map_option Addr (snd (ServeHTTP reflib untrustingProxy newResponseWriter spoofRequest)) =
     Some (AddrPortFrom [9, 9, 9, 9] 0)"
    and 6: "map_option PreAddr (snd (ServeHTTP reflib untrustingProxy newResponseWriter spoofRequest)) =
     Some (AddrPortFrom [10, 0, 0, 2] 1)"
    unfolding s by (simp_all add: newDNSContext_def)
  from 1 2 3 4 5 6 show ?thesis by (intro conjI)
qed

subsection \<open>Decoding a request\<close>

text \<open>
  The status codes of the decoder. It returns no message and status
  \<^item> 400 on a GET whose path is neither \<open>/resolve\<close> nor \<open>/dns-query\<close>, when the \<open>dns\<close>
    parameter decodes to no bytes, is not valid base64url, or does not unpack;
  \<^item> 400 on a GET on \<open>/resolve\<close> or \<open>/dns-query\<close>, when \<open>parseHTTPArgs\<close> fails or its
    payload does not unpack;
  \<^item> 415 on a POST whose content type is not \<open>application/dns-message\<close>, whatever the
    body;
  \<^item> 400 on a POST with that content type whose body cannot be read or does not unpack;
  \<^item> 405 on every other method.
\<close>

theorem newDoHOrHttpReq_status:
  "(Method r = ''GET'' \<and> URL_Path r \<noteq> ''/resolve'' \<and> URL_Path r \<noteq> ''/dns-query'' \<and>
      (fst (base64_RawURLDecodeString lib (Get (URL_Query r) ''dns'')) = [] \<or>
       snd (base64_RawURLDecodeString lib (Get (URL_Query r) ''dns'')) \<or>
       dns_Unpack lib (fst (base64_RawURLDecodeString lib (Get (URL_Query r) ''dns''))) = None) \<longrightarrow>
      fst (newDoHOrHttpReq lib r) = None \<and> fst (snd (newDoHOrHttpReq lib r)) = 400) \<and>
   (Method r = ''GET'' \<and> (URL_Path r = ''/resolve'' \<or> URL_Path r = ''/dns-query'') \<and>
      (fst (parseHTTPArgs lib (URL_Query r)) = [] \<or>
       snd (snd (parseHTTPArgs lib (URL_Query r))) \<noteq> None \<or>
       dns_Unpack lib (fst (parseHTTPArgs lib (URL_Query r))) = None) \<longrightarrow>
      fst (newDoHOrHttpReq lib r) = None \<and> fst (snd (newDoHOrHttpReq lib r)) = 400) \<and>
   (Method r = ''POST'' \<and> Get (Header r) httphdr_ContentType \<noteq> ''application/dns-message'' \<longrightarrow>
      fst (newDoHOrHttpReq lib r) = None \<and> fst (snd (newDoHOrHttpReq lib r)) = 415) \<and>
   (Method r = ''POST'' \<and> Get (Header r) httphdr_ContentType = ''application/dns-message'' \<and>
      (Body r = None \<or> (\<exists>buf. Body r = Some buf \<and> dns_Unpack lib buf = None)) \<longrightarrow>
      fst (newDoHOrHttpReq lib r) = None \<and> fst (snd (newDoHOrHttpReq lib r)) = 400) \<and>
   (Method r \<noteq> ''GET'' \<and> Method r \<noteq> ''POST'' \<longrightarrow>
      fst (newDoHOrHttpReq lib r) = None \<and> fst (snd (newDoHOrHttpReq lib r)) = 405)"
proof (intro conjI impI)
  assume "Method r = ''GET'' \<and> URL_Path r \<noteq> ''/resolve'' \<and> URL_Path r \<noteq> ''/dns-query'' \<and>
      (fst (base64_RawURLDecodeString lib (Get (URL_Query r) ''dns'')) = [] \<or>
       snd (base64_RawURLDecodeString lib (Get (URL_Query r) ''dns'')) \<or>
       dns_Unpack lib (fst (base64_RawURLDecodeString lib (Get (URL_Query r) ''dns''))) = None)"
  then show "fst (newDoHOrHttpReq lib r) = None" "fst (snd (newDoHOrHttpReq lib r)) = 400"
    by (auto simp: newDoHOrHttpReq_def unpackReq_def Let_def HttpDnsUrlPathPrefix_def
        HttpDnsUrlPathPrefixBak_def http_StatusBadRequest_def split: prod.splits)
next
  assume "Method r = ''GET'' \<and> (URL_Path r = ''/resolve'' \<or> URL_Path r = ''/dns-query'') \<and>
      (fst (parseHTTPArgs lib (URL_Query r)) = [] \<or>
       snd (snd (parseHTTPArgs lib (URL_Query r))) \<noteq> None \<or>
       dns_Unpack lib (fst (parseHTTPArgs lib (URL_Query r))) = None)"
  then show "fst (newDoHOrHttpReq lib r) = None" "fst (snd (newDoHOrHttpReq lib r)) = 400"
    by (auto simp: newDoHOrHttpReq_def unpackReq_def Let_def HttpDnsUrlPathPrefix_def
        HttpDnsUrlPathPrefixBak_def http_StatusBadRequest_def split: prod.splits)
next
  assume "Method r = ''POST'' \<and> Get (Header r) httphdr_ContentType \<noteq> ''application/dns-message''"
  then show "fst (newDoHOrHttpReq lib r) = None" "fst (snd (newDoHOrHttpReq lib r)) = 415"
    by (simp_all add: newDoHOrHttpReq_def Let_def http_StatusUnsupportedMediaType_def)
next
  assume "Method r = ''POST'' \<and> Get (Header r) httphdr_ContentType = ''application/dns-message'' \<and>
      (Body r = None \<or> (\<exists>buf. Body r = Some buf \<and> dns_Unpack lib buf = None))"
  then show "fst (newDoHOrHttpReq lib r) = None" "fst (snd (newDoHOrHttpReq lib r)) = 400"
    by (auto simp: newDoHOrHttpReq_def unpackReq_def Let_def http_StatusBadRequest_def)
next
  assume "Method r \<noteq> ''GET'' \<and> Method r \<noteq> ''POST''"
  then show "fst (newDoHOrHttpReq lib r) = None" "fst (snd (newDoHOrHttpReq lib r)) = 405"
    by (simp_all add: newDoHOrHttpReq_def Let_def http_StatusMethodNotAllowed_def)
qed

theorem newDoHOrHttpReq_status_witness:
  "fst (snd (newDoHOrHttpReq reflib emptyDnsParamRequest)) = 400 \<and>
   fst (snd (newDoHOrHttpReq reflib shortDnsParamRequest)) = 400 \<and>
   fst (snd (newDoHOrHttpReq reflib (rootRequest\<lparr>URL_Query := (\<lambda>k. [])(''type'' := [''bogus''])\<rparr>))) = 400 \<and>
   fst (snd (newDoHOrHttpReq reflib textPostRequest)) = 415 \<and>
   fst (snd (newDoHOrHttpReq reflib shortPostRequest)) = 400 \<and>
   fst (snd (newDoHOrHttpReq reflib putRequest)) = 405 \<and>
   fst (newDoHOrHttpReq reflib putRequest) = None"
proof -
  have e: "Method emptyDnsParamRequest = ''GET'' \<and> URL_Path emptyDnsParamRequest \<noteq> ''/resolve'' \<and>
           URL_Path emptyDnsParamRequest \<noteq> ''/dns-query'' \<and>
           fst (base64_RawURLDecodeString reflib (Get (URL_Query emptyDnsParamRequest) ''dns'')) = []"
    by code_simp
  have s: "Method shortDnsParamRequest = ''GET'' \<and> URL_Path shortDnsParamRequest \<noteq> ''/resolve'' \<and>
           URL_Path shortDnsParamRequest \<noteq> ''/dns-query'' \<and>
           dns_Unpack reflib
             (fst (base64_RawURLDecodeString reflib (Get (URL_Query shortDnsParamRequest) ''dns''))) = None"
    by code_simp
  have j: "Method (rootRequest\<lparr>URL_Query := (\<lambda>k. [])(''type'' := [''bogus''])\<rparr>) = ''GET'' \<and>
           URL_Path (rootRequest\<lparr>URL_Query := (\<lambda>k. [])(''type'' := [''bogus''])\<rparr>) = ''/resolve'' \<and>
           snd (snd (parseHTTPArgs reflib
             (URL_Query (rootRequest\<lparr>URL_Query := (\<lambda>k. [])(''type'' := [''bogus''])\<rparr>)))) \<noteq> None"
    by code_simp
  have t: "Method textPostRequest = ''POST'' \<and>
           Get (Header textPostRequest) httphdr_ContentType \<noteq> ''application/dns-message''"
    by code_simp
  have p: "Method shortPostRequest = ''POST'' \<and>
           Get (Header shortPostRequest) httphdr_ContentType = ''application/dns-message'' \<and>
           Body shortPostRequest = Some ''abc'' \<and> dns_Unpack reflib ''abc'' = None"
    by code_simp
  have u: "Method putRequest \<noteq> ''GET'' \<and> Method putRequest \<noteq> ''POST''"
    by code_simp
  note c1 = newDoHOrHttpReq_status[THEN conjunct1, THEN mp]
  note c2 = newDoHOrHttpReq_status[THEN conjunct2, THEN conjunct1, THEN mp]
  note c3 = newDoHOrHttpReq_status[THEN conjunct2, THEN conjunct2, THEN conjunct1, THEN mp]
  note c4 = newDoHOrHttpReq_status[THEN conjunct2, THEN conjunct2, THEN conjunct2,
      THEN conjunct1, THEN mp]
  note c5 = newDoHOrHttpReq_status[THEN conjunct2, THEN conjunct2, THEN conjunct2,
      THEN conjunct2, THEN mp]
  have r1: "fst (snd (newDoHOrHttpReq reflib emptyDnsParamRequest)) = 400"
    using c1[of emptyDnsParamRequest reflib] e by simp
  have r2: "fst (snd (newDoHOrHttpReq reflib shortDnsParamRequest)) = 400"
    using c1[of shortDnsParamRequest reflib] s by simp
  have r3: "fst (snd (newDoHOrHttpReq reflib
      (rootRequest\<lparr>URL_Query := (\<lambda>k. [])(''type'' := [''bogus''])\<rparr>))) = 400"
    using c2[of "rootRequest\<lparr>URL_Query := (\<lambda>k. [])(''type'' := [''bogus''])\<rparr>" reflib] j
    by simp
  have r4: "fst (snd (newDoHOrHttpReq reflib textPostRequest)) = 415"
    using c3[of textPostRequest reflib] t by simp
  have r5: "fst (snd (newDoHOrHttpReq reflib shortPostRequest)) = 400"
    using c4[of shortPostRequest reflib] p by simp
  have r6: "fst (snd (newDoHOrHttpReq reflib putRequest)) = 405 \<and>
            fst (newDoHOrHttpReq reflib putRequest) = None"
    using c5[of putRequest reflib] u by simp
  from r1 r2 r3 r4 r5 r6 show ?thesis by simp
qed

text \<open>
  Claim C7 does not hold on the code on the JSON paths, where the \<open>dns\<close> parameter is
  never read: a GET on \<open>/dns-query\<close> whose \<open>dns\<close> parameter is not valid base64url, and
  which carries no other query data, is answered with status 200 and the query for the
  root name that \<open>parseHTTPArgs\<close> builds, not with status 400.
\<close>

theorem newDoHOrHttpReq_json_path_ignores_dns:
  "Method badDnsParamRequest = ''GET'' \<and>
   Get (URL_Query badDnsParamRequest) ''dns'' = ''!!!'' \<and>
   snd (base64_RawURLDecodeString reflib (Get (URL_Query badDnsParamRequest) ''dns'')) \<and>
   newDoHOrHttpReq reflib badDnsParamRequest =
     (Some (httpArgsMsg reflib ''.'' dns_TypeA), 200, HttpDnsAnswerTypeJsonAnswer, [])"
  by code_simp

text \<open>
  Claim C10. On a GET on \<open>/resolve\<close> or \<open>/dns-query\<close> whose \<open>name\<close> parameter is empty
  or absent and whose \<open>type\<close> is in the table, \<open>convertFQDN\<close> gives the name \<open>"."\<close>,
  the query built has that name as its one question, and the decoder returns status
  200 with the unpacked query, not 400. The library packs the root query into a
  payload that is not empty and unpacks it again.
\<close>

theorem root_query_synthesized:
  assumes "Method r = ''GET''"
    and "URL_Path r = ''/resolve'' \<or> URL_Path r = ''/dns-query''"
    and "Get (URL_Query r) ''name'' = []"
    and "HTTPDNSSupportType (strings_ToUpper lib (Get (URL_Query r) ''type'')) = Some t"
    and "dns_Pack lib (httpArgsMsg lib ''.'' t) = Some buf"
    and "buf \<noteq> []"
    and "dns_Unpack lib buf = Some req"
  shows "convertFQDN (Get (URL_Query r) ''name'') = ''.'' \<and>
         Question (httpArgsMsg lib ''.'' t :: 'rr dns_Msg) =
           [\<lparr>Name = ''.'', Qtype = t, Qclass = dns_ClassINET\<rparr>] \<and>
         parseHTTPArgs lib (URL_Query r) = (buf, Get (URL_Query r) ''ip'', None) \<and>
         newDoHOrHttpReq lib r =
           (Some req, 200, HttpDnsAnswerTypeJsonAnswer, Get (URL_Query r) ''ip'')"
proof -
  have c: "convertFQDN [] = ''.''"
    by (simp add: convertFQDN_def Trim_def TrimSpace_Nil)
  have s: "HasSuffix ''.'' ''.''"
    by (simp add: HasSuffix_def HasPrefix_def)
  have p: "parseHTTPArgs lib (URL_Query r) = (buf, Get (URL_Query r) ''ip'', None)"
    using assms(3,4,5) c s by (simp add: parseHTTPArgs_def Let_def)
  have n: "newDoHOrHttpReq lib r =
           (Some req, 200, HttpDnsAnswerTypeJsonAnswer, Get (URL_Query r) ''ip'')"
    using assms(1,2,6,7) p
    by (auto simp: newDoHOrHttpReq_def unpackReq_def Let_def HttpDnsUrlPathPrefix_def
        HttpDnsUrlPathPrefixBak_def http_StatusOK_def)
  from c p n assms(3) show ?thesis by (simp add: httpArgsMsg_def)
qed

theorem root_query_synthesized_witness:
  "newDoHOrHttpReq reflib rootRequest =
     (Some (httpArgsMsg reflib ''.'' dns_TypeNS), 200, HttpDnsAnswerTypeJsonAnswer, []) \<and>
   Question (httpArgsMsg reflib ''.'' dns_TypeNS) =
     [\<lparr>Name = ''.'', Qtype = 2, Qclass = 1\<rparr>]"
proof -
  have m: "Method rootRequest = ''GET''"
    and u: "URL_Path rootRequest = ''/resolve'' \<or> URL_Path rootRequest = ''/dns-query''"
    and n: "Get (URL_Query rootRequest) ''name'' = []"
    and i: "Get (URL_Query rootRequest) ''ip'' = []"
    and t: "HTTPDNSSupportType (strings_ToUpper reflib (Get (URL_Query rootRequest) ''type'')) = Some dns_TypeNS"
    and p: "dns_Pack reflib (httpArgsMsg reflib ''.'' dns_TypeNS) =
              Some [CHR 0x12, CHR 0x34, CHR 0x01, CHR 0x00, CHR 0x00, CHR 0x01, CHR 0x00, CHR 0x00,
                    CHR 0x00, CHR 0x00, CHR 0x00, CHR 0x00, CHR 0x00, CHR 0x00, CHR 0x02, CHR 0x00,
                    CHR 0x01]"
    and k: "dns_Unpack reflib
              [CHR 0x12, CHR 0x34, CHR 0x01, CHR 0x00, CHR 0x00, CHR 0x01, CHR 0x00, CHR 0x00,
               CHR 0x00, CHR 0x00, CHR 0x00, CHR 0x00, CHR 0x00, CHR 0x00, CHR 0x02, CHR 0x00,
               CHR 0x01] = Some (httpArgsMsg reflib ''.'' dns_TypeNS)"
    by code_simp+
  have e: "[CHR 0x12, CHR 0x34, CHR 0x01, CHR 0x00, CHR 0x00, CHR 0x01, CHR 0x00, CHR 0x00,
            CHR 0x00, CHR 0x00, CHR 0x00, CHR 0x00, CHR 0x00, CHR 0x00, CHR 0x02, CHR 0x00,
            CHR 0x01] \<noteq> []" by simp
  from root_query_synthesized[OF m u n t p e k] i
  show ?thesis by (simp add: dns_TypeNS_def dns_ClassINET_def)
qed

text \<open>
  Claim C5 does not hold on the code for a name with white space after its last dot:
  \<open>convertFQDN\<close> trims the dots first and the white space second, so the dot that the
  white space covered stays and a second one is appended. The query \<open>parseHTTPArgs\<close>
  builds then has the name \<open>example.com..\<close>; with the reference library it does not
  pack and the request ends with status 400.
\<close>

theorem convertFQDN_space_after_dot:
  "convertFQDN ''example.com. '' = ''example.com..'' \<and>
   parseHTTPArgs lib ((\<lambda>k. [])(''name'' := [''example.com. ''], ''type'' := [''A''])) =
     (case HTTPDNSSupportType (strings_ToUpper lib ''A'') of
        None \<Rightarrow> ([], [], Some (ErrInvalidType (strings_ToUpper lib ''A'')))
      | Some t \<Rightarrow>
          (case dns_Pack lib (httpArgsMsg lib ''example.com..'' t) of
             None \<Rightarrow> ([], [], Some ErrPack)
           | Some buf \<Rightarrow> (buf, [], None))) \<and>
   newDoHOrHttpReq reflib trailingSpaceRequest = (None, 400, HttpDnsAnswerTypeJsonAnswer, [])"
proof -
  have c: "convertFQDN ''example.com. '' = ''example.com..''"
    by code_simp
  have s: "HasSuffix ''example.com..'' ''.''"
    by code_simp
  have n: "newDoHOrHttpReq reflib trailingSpaceRequest =
             (None, 400, HttpDnsAnswerTypeJsonAnswer, [])"
    by code_simp
  have p: "parseHTTPArgs lib ((\<lambda>k. [])(''name'' := [''example.com. ''], ''type'' := [''A''])) =
     (case HTTPDNSSupportType (strings_ToUpper lib ''A'') of
        None \<Rightarrow> ([], [], Some (ErrInvalidType (strings_ToUpper lib ''A'')))
      | Some t \<Rightarrow>
          (case dns_Pack lib (httpArgsMsg lib ''example.com..'' t) of
             None \<Rightarrow> ([], [], Some ErrPack)
           | Some buf \<Rightarrow> (buf, [], None)))"
    using c s by (simp add: parseHTTPArgs_def Let_def Get_def split: option.splits)
  from c p n show ?thesis by (intro conjI)
qed

lemma HasSuffix_dot: "HasSuffix (s @ ''.'') ''.''"
  by (simp add: HasSuffix_def HasPrefix_def)

text \<open>
  \<open>parseHTTPArgs\<close> fails on a type that is not in the table; otherwise it packs a query
  with recursion desired and one question, whose name is the \<open>name\<close> parameter with its
  surrounding dots trimmed, then its surrounding white space, and a dot appended, and
  whose type is the table's entry for the upper-cased \<open>type\<close> parameter. The entry for
  the empty string is A.
\<close>

theorem parseHTTPArgs_query:
  "(HTTPDNSSupportType (strings_ToUpper lib (Get args ''type'')) = None \<longrightarrow>
      parseHTTPArgs lib args =
        ([], [], Some (ErrInvalidType (strings_ToUpper lib (Get args ''type''))))) \<and>
   (\<forall>t. HTTPDNSSupportType (strings_ToUpper lib (Get args ''type'')) = Some t \<longrightarrow>
      parseHTTPArgs lib args =
        (case dns_Pack lib
                (httpArgsMsg lib (TrimSpace (Trim (Get args ''name'') ''.'') @ ''.'') t) of
           None \<Rightarrow> ([], Get args ''ip'', Some ErrPack)
         | Some buf \<Rightarrow> (buf, Get args ''ip'', None))) \<and>
   Question (httpArgsMsg lib n t' :: 'rr dns_Msg) =
     [\<lparr>Name = n, Qtype = t', Qclass = dns_ClassINET\<rparr>] \<and>
   RecursionDesired (httpArgsMsg lib n t' :: 'rr dns_Msg) \<and>
   HTTPDNSSupportType [] = Some dns_TypeA"
  by (auto simp: parseHTTPArgs_def Let_def convertFQDN_def HasSuffix_dot httpArgsMsg_def
      HTTPDNSSupportType_def split: option.splits)

theorem parseHTTPArgs_query_witness:
  "fst (parseHTTPArgs reflib (URL_Query cfJsonRequest)) =
     [CHR 0x12, CHR 0x34, CHR 0x01, CHR 0x00, CHR 0x00, CHR 0x01, CHR 0x00, CHR 0x00,
      CHR 0x00, CHR 0x00, CHR 0x00, CHR 0x00] @
     [CHR 0x07] @ ''example'' @ [CHR 0x03] @ ''com'' @ [CHR 0x00, CHR 0x00, CHR 0x01, CHR 0x00, CHR 0x01] \<and>
   snd (snd (parseHTTPArgs reflib ((\<lambda>k. [])(''type'' := [''bogus''])))) \<noteq> None"
proof -
  have t: "HTTPDNSSupportType (strings_ToUpper reflib (Get (URL_Query cfJsonRequest) ''type'')) =
             Some dns_TypeA"
    and b: "HTTPDNSSupportType (strings_ToUpper reflib (Get ((\<lambda>k. [])(''type'' := [''bogus''])) ''type'')) =
             None"
    and p: "dns_Pack reflib
              (httpArgsMsg reflib (TrimSpace (Trim (Get (URL_Query cfJsonRequest) ''name'') ''.'') @ ''.'')
                 dns_TypeA) =
            Some ([CHR 0x12, CHR 0x34, CHR 0x01, CHR 0x00, CHR 0x00, CHR 0x01, CHR 0x00, CHR 0x00,
      CHR 0x00, CHR 0x00, CHR 0x00, CHR 0x00] @
     [CHR 0x07] @ ''example'' @ [CHR 0x03] @ ''com'' @ [CHR 0x00, CHR 0x00, CHR 0x01, CHR 0x00, CHR 0x01])"
    by code_simp+
  from parseHTTPArgs_query[of reflib "URL_Query cfJsonRequest", THEN conjunct2, THEN conjunct1,
      THEN spec, THEN mp, OF t] p
  have r1: "fst (parseHTTPArgs reflib (URL_Query cfJsonRequest)) =
     [CHR 0x12, CHR 0x34, CHR 0x01, CHR 0x00, CHR 0x00, CHR 0x01, CHR 0x00, CHR 0x00,
      CHR 0x00, CHR 0x00, CHR 0x00, CHR 0x00] @
     [CHR 0x07] @ ''example'' @ [CHR 0x03] @ ''com'' @ [CHR 0x00, CHR 0x00, CHR 0x01, CHR 0x00, CHR 0x01]"
    by simp
  from parseHTTPArgs_query[of reflib "(\<lambda>k. [])(''type'' := [''bogus''])", THEN conjunct1, THEN mp, OF b]
  have r2: "snd (snd (parseHTTPArgs reflib ((\<lambda>k. [])(''type'' := [''bogus''])))) \<noteq> None"
    by simp
  from r1 r2 show ?thesis by simp
qed

subsection \<open>Writing the answer\<close>

text \<open>
  Claim C1 does not hold on the code. \<open>ServeHTTP\<close> tags a request whose URL has the
  scheme \<open>https\<close> with \<open>ProtoHTTPS\<close>, also on the JSON paths, and for a context so tagged
  \<open>respondHTTPS\<close> writes the packed wire form whatever the encoding kind, under the
  content type \<open>application/json\<close> when the kind is JSON.
\<close>

theorem respondHTTPS_https_json_body:
  "map_option Proto_d (snd (ServeHTTP reflib plainProxy newResponseWriter httpsJsonRequest)) =
     Some ProtoHTTPS \<and>
   map_option AnswerType (snd (ServeHTTP reflib plainProxy newResponseWriter httpsJsonRequest)) =
     Some HttpDnsAnswerTypeJsonAnswer \<and>
   respondHTTPS lib p
     (d\<lparr>Proto_d := ProtoHTTPS, AnswerType := HttpDnsAnswerTypeJsonAnswer, Res := Some resp\<rparr>) w =
     (case dns_Pack lib resp of
        None \<Rightarrow> (http_Error w ''Internal Server Error'' 500, Some ErrPackingMessage)
      | Some b \<Rightarrow>
          (Write (Header_Set
                    (if HTTPSServerName p \<noteq> []
                     then Header_Set w httphdr_Server (HTTPSServerName p) else w)
                    httphdr_ContentType ''application/json'') (Raw b), None))"
proof -
  have 1: "map_option Proto_d (snd (ServeHTTP reflib plainProxy newResponseWriter httpsJsonRequest)) =
     Some ProtoHTTPS"
    by code_simp
  have 2: "map_option AnswerType (snd (ServeHTTP reflib plainProxy newResponseWriter httpsJsonRequest)) =
     Some HttpDnsAnswerTypeJsonAnswer"
    by code_simp
  have 3: "respondHTTPS lib p
     (d\<lparr>Proto_d := ProtoHTTPS, AnswerType := HttpDnsAnswerTypeJsonAnswer, Res := Some resp\<rparr>) w =
     (case dns_Pack lib resp of
        None \<Rightarrow> (http_Error w ''Internal Server Error'' 500, Some ErrPackingMessage)
      | Some b \<Rightarrow>
          (Write (Header_Set
                    (if HTTPSServerName p \<noteq> []
                     then Header_Set w httphdr_Server (HTTPSServerName p) else w)
                    httphdr_ContentType ''application/json'') (Raw b), None))"
    by (simp add: respondHTTPS_def Let_def HttpDnsAnswerTypeJsonAnswer_def HttpDnsAnswerTypeDoh_def
        http_StatusText_def http_StatusInternalServerError_def split: option.splits)
  from 1 2 3 show ?thesis by (intro conjI)
qed

text \<open>
  Claim C4 does not hold on the code for a message without a question: the JSON
  document written is the zero \<open>DnsResponse\<close>, whose \<open>question\<close> and \<open>answer\<close> are
  \<open>null\<close>.
\<close>

theorem formatHTTPDNSMsg_no_question_null:
  "formatHTTPDNSMsg lib (msg\<lparr>Question := []\<rparr>) HttpDnsAnswerTypeJsonAnswer =
     Inr (JsonDoc (JObject
       [(''tc'', JBool False), (''rd'', JBool False), (''ra'', JBool False),
        (''ad'', JBool False), (''cd'', JBool False), (''status'', JNumber 0),
        (''question'', JNull), (''answer'', JNull)]))"
  by (simp add: formatHTTPDNSMsg_def HttpDnsAnswerTypeJsonAnswer_def HttpDnsAnswerTypeDoh_def
      json_Marshal_def DnsResponseZero_def json_slice_def)

text \<open>The loop of \<open>formatHTTPDNSMsg\<close> keeps the rows of the queried type, in order.\<close>

lemma appendAnswers_filter:
  "appendAnswers lib qType rrs acc =
     acc @ map (\<lambda>rr. \<lparr>Name_rr = rr ! 0, TTL = strconv_Atoi lib (rr ! 1),
                       Type_rr = (case HTTPDNSSupportType (strings_ToUpper lib qType) of
                                    None \<Rightarrow> 0 | Some t \<Rightarrow> uint t),
                       Data = rr ! 4\<rparr>)
             (filter (\<lambda>rr. qType = rr ! 3) rrs)"
  by (induction rrs arbitrary: acc) auto

text \<open>Every row of \<open>rrsToArray\<close> has five fields, so the loop reads them in range.\<close>

lemma rrsToArray_rows: "row \<in> set (rrsToArray lib rrs) \<Longrightarrow> length row = 5"
  by (induction lib rrs rule: rrsToArray.induct) (auto simp: Let_def split: if_splits)

text \<open>
  For a message with a question and the JSON kind, \<open>formatHTTPDNSMsg\<close> writes the flags,
  the status, the first question, and as \<open>answer\<close> an array: the records whose type
  field is the name of the queried type, in their order.
\<close>

theorem formatHTTPDNSMsg_json_object:
  assumes "Question msg = q # qs" and "answerType \<noteq> HttpDnsAnswerTypeDoh"
  shows "formatHTTPDNSMsg lib msg answerType =
           Inr (JsonDoc (JObject
             [(''tc'', JBool (Truncated msg)), (''rd'', JBool (RecursionDesired msg)),
              (''ra'', JBool (RecursionAvailable msg)), (''ad'', JBool (AuthenticatedData msg)),
              (''cd'', JBool (CheckingDisabled msg)), (''status'', JNumber (Rcode msg)),
              (''question'',
                 JArray [JObject [(''name'', JString (Name q)), (''type'', JNumber (uint (Qtype q)))]]),
              (''answer'',
                 JArray (map (\<lambda>rr. JObject
                                 [(''name'', JString (rr ! 0)),
                                  (''ttl'', JNumber (strconv_Atoi lib (rr ! 1))),
                                  (''type'', JNumber
                                     (case HTTPDNSSupportType (strings_ToUpper lib
                                             (case dns_TypeToString lib (Qtype q) of
                                                None \<Rightarrow> [] | Some s \<Rightarrow> s)) of
                                        None \<Rightarrow> 0 | Some t \<Rightarrow> uint t)),
                                  (''data'', JString (rr ! 4))])
                    (filter (\<lambda>rr. (case dns_TypeToString lib (Qtype q) of
                                      None \<Rightarrow> [] | Some s \<Rightarrow> s) = rr ! 3)
                       (rrsToArray lib (Answer msg)))))]))"
  using assms
  by (simp add: formatHTTPDNSMsg_def Let_def json_Marshal_def json_slice_def json_Question_def
      json_RR_def appendAnswers_filter comp_def)

theorem formatHTTPDNSMsg_json_object_witness:
  "formatHTTPDNSMsg reflib addressAnswer HttpDnsAnswerTypeJsonAnswer =
     Inr (JsonDoc (JObject
       [(''tc'', JBool False), (''rd'', JBool True), (''ra'', JBool True),
        (''ad'', JBool False), (''cd'', JBool False), (''status'', JNumber 0),
        (''question'', JArray [JObject [(''name'', JString ''example.com.''), (''type'', JNumber 1)]]),
        (''answer'',
           JArray [JObject [(''name'', JString ''example.com.''), (''ttl'', JNumber 300),
                            (''type'', JNumber 1), (''data'', JString ''93.184.216.34'')]])]))"
proof -
  have q: "Question addressAnswer =
             \<lparr>Name = ''example.com.'', Qtype = 1, Qclass = 1\<rparr> # []"
    by code_simp
  have k: "HttpDnsAnswerTypeJsonAnswer \<noteq> HttpDnsAnswerTypeDoh"
    by code_simp
  have f: "Truncated addressAnswer = False" "RecursionDesired addressAnswer = True"
    "RecursionAvailable addressAnswer = True" "AuthenticatedData addressAnswer = False"
    "CheckingDisabled addressAnswer = False" "Rcode addressAnswer = 0"
    by code_simp+
  have t: "dns_TypeToString reflib 1 = Some ''A''"
    by code_simp
  have u: "HTTPDNSSupportType (strings_ToUpper reflib ''A'') = Some 1"
    by code_simp
  have r: "filter (\<lambda>rr. ''A'' = rr ! 3) (rrsToArray reflib (Answer addressAnswer)) =
             [[''example.com.'', ''300'', ''IN'', ''A'', ''93.184.216.34'']]"
    by code_simp
  have a: "strconv_Atoi reflib ''300'' = 300"
    by code_simp
  from formatHTTPDNSMsg_json_object[OF q k, of reflib]
  show ?thesis by (simp add: f t u r a)
qed

text \<open>
  With an answer present: for the binary kind \<open>respondHTTPS\<close> writes the packed answer
  under the content type \<open>application/dns-message\<close>; for the JSON kind on a context
  tagged \<open>ProtoHTTP\<close> it writes the JSON document under \<open>application/json\<close>.
\<close>

theorem respondHTTPS_http_by_kind:
  assumes "Res d = Some resp" and "StatusCode w = None"
  shows "(AnswerType d = HttpDnsAnswerTypeDoh \<and> dns_Pack lib resp = Some b \<longrightarrow>
            Written (fst (respondHTTPS lib p d w)) = Written w @ [Raw b] \<and>
            Header_w (fst (respondHTTPS lib p d w)) httphdr_ContentType =
              Some ''application/dns-message'' \<and>
            StatusCode (fst (respondHTTPS lib p d w)) = Some 200) \<and>
         (AnswerType d \<noteq> HttpDnsAnswerTypeDoh \<and> Proto_d d = ProtoHTTP \<longrightarrow>
            (\<exists>doc. formatHTTPDNSMsg lib resp (AnswerType d) = Inr (JsonDoc doc) \<and>
                    Written (fst (respondHTTPS lib p d w)) = Written w @ [JsonDoc doc]) \<and>
            Header_w (fst (respondHTTPS lib p d w)) httphdr_ContentType =
              Some ''application/json'' \<and>
            StatusCode (fst (respondHTTPS lib p d w)) = Some 200)"
proof (intro conjI impI)
  assume a: "AnswerType d = HttpDnsAnswerTypeDoh \<and> dns_Pack lib resp = Some b"
  then have f: "(if Proto_d d = ProtoHTTP then formatHTTPDNSMsg lib resp (AnswerType d)
                 else (case dns_Pack lib resp of None \<Rightarrow> Inl ErrPack | Some b \<Rightarrow> Inr (Raw b))) =
                Inr (Raw b)"
    by (simp add: formatHTTPDNSMsg_def)
  show "Written (fst (respondHTTPS lib p d w)) = Written w @ [Raw b]"
    "Header_w (fst (respondHTTPS lib p d w)) httphdr_ContentType = Some ''application/dns-message''"
    "StatusCode (fst (respondHTTPS lib p d w)) = Some 200"
    using assms a
    by (simp_all add: respondHTTPS_def f Let_def Write_def WriteHeader_def Header_Set_def
        httphdr_ContentType_def httphdr_Server_def)
next
  assume a: "AnswerType d \<noteq> HttpDnsAnswerTypeDoh \<and> Proto_d d = ProtoHTTP"
  then have "\<exists>doc. formatHTTPDNSMsg lib resp (AnswerType d) = Inr (JsonDoc doc)"
    by (cases "Question resp") (simp_all add: formatHTTPDNSMsg_def Let_def)
  then obtain doc where f: "formatHTTPDNSMsg lib resp (AnswerType d) = Inr (JsonDoc doc)"
    by blast
  show "\<exists>doc. formatHTTPDNSMsg lib resp (AnswerType d) = Inr (JsonDoc doc) \<and>
              Written (fst (respondHTTPS lib p d w)) = Written w @ [JsonDoc doc]"
    using assms a f
    by (simp add: respondHTTPS_def Let_def Write_def WriteHeader_def Header_Set_def)
  show "Header_w (fst (respondHTTPS lib p d w)) httphdr_ContentType = Some ''application/json''"
    "StatusCode (fst (respondHTTPS lib p d w)) = Some 200"
    using assms a f
    by (simp_all add: respondHTTPS_def Let_def Write_def WriteHeader_def Header_Set_def
        httphdr_ContentType_def httphdr_Server_def)
qed

theorem respondHTTPS_http_by_kind_witness:
  "Header_w (fst (respondHTTPS reflib plainProxy httpContext newResponseWriter)) httphdr_ContentType =
     Some ''application/json'' \<and>
   Header_w (fst (respondHTTPS reflib plainProxy
       (httpContext\<lparr>AnswerType := HttpDnsAnswerTypeDoh, Res := Some emptyAnswer\<rparr>)
       newResponseWriter)) httphdr_ContentType = Some ''application/dns-message''"
proof -
  have s: "StatusCode newResponseWriter = None" by code_simp
  have r1: "Res httpContext = Some addressAnswer" by code_simp
  have k1: "AnswerType httpContext \<noteq> HttpDnsAnswerTypeDoh \<and> Proto_d httpContext = ProtoHTTP"
    by code_simp
  have r2: "Res (httpContext\<lparr>AnswerType := HttpDnsAnswerTypeDoh, Res := Some emptyAnswer\<rparr>) =
              Some emptyAnswer" by simp
  obtain b where b: "dns_Pack reflib emptyAnswer = Some b"
    by (cases "dns_Pack reflib emptyAnswer") (code_simp, blast)
  have k2: "AnswerType (httpContext\<lparr>AnswerType := HttpDnsAnswerTypeDoh, Res := Some emptyAnswer\<rparr>) =
              HttpDnsAnswerTypeDoh \<and> dns_Pack reflib emptyAnswer = Some b"
    using b by simp
  from respondHTTPS_http_by_kind[OF r1 s, THEN conjunct2, THEN mp, OF k1]
  have c1: "Header_w (fst (respondHTTPS reflib plainProxy httpContext newResponseWriter))
              httphdr_ContentType = Some ''application/json''" by simp
  from respondHTTPS_http_by_kind[OF r2 s, THEN conjunct1, THEN mp, OF k2]
  have c2: "Header_w (fst (respondHTTPS reflib plainProxy
       (httpContext\<lparr>AnswerType := HttpDnsAnswerTypeDoh, Res := Some emptyAnswer\<rparr>)
       newResponseWriter)) httphdr_ContentType = Some ''application/dns-message''" by simp
  from c1 c2 show ?thesis by simp
qed

end
